theory Spec2Isabelle
  imports Main "HOL-Library.Sublist"
begin

section \<open>qRest: SQL over REST, translator, grammar derivation and executor\<close>

text \<open>
  A shallow embedding of the Go packages \<^verbatim>\<open>translator\<close> (simple_sql.go),
  \<^verbatim>\<open>grammar\<close> (GenerateGrammar and its helpers), \<^verbatim>\<open>parser\<close> (the capability records and
  detectOperators) and \<^verbatim>\<open>executor\<close> (rest.go).

  Conventions of the embedding.
  \<^item> A Go \<^verbatim>\<open>string\<close> is a \<^typ>\<open>string\<close>, one \<^typ>\<open>char\<close> per byte. The library functions
    below (\<^verbatim>\<open>strings\<close>, \<^verbatim>\<open>strconv\<close>, \<^verbatim>\<open>regexp\<close>) are modelled on ASCII text: case
    mapping touches the 26 letters only and a character class is a set of ASCII bytes.
  \<^item> A Go \<^verbatim>\<open>int\<close> is an \<^typ>\<open>int\<close>; \<^verbatim>\<open>strconv.Atoi\<close> rejects what does not fit 64 bits.
  \<^item> \<^verbatim>\<open>interface{}\<close> values produced by \<^verbatim>\<open>parseValue\<close> are integers, floats or strings.
    Floating point is outside the embedding: the type of floats is a parameter \<open>'f\<close>, and
    \<^verbatim>\<open>strconv.ParseFloat\<close> and the \<^verbatim>\<open>%v\<close> rendering of a float are parameters \<open>pf\<close> and
    \<open>ff\<close> of the functions that call them.
  \<^item> An \<^verbatim>\<open>error\<close> return is the left injection of a sum; the \<^verbatim>\<open>*ParsedQuery\<close> that the
    parser mutates is passed in and returned.
  \<^item> Struct fields keep their Go names; where two structs share a field name the later one
    carries a lower-case prefix (\<open>q\<close> for ParsedQuery, \<open>w\<close> for WhereGrammar, \<open>o\<close> for
    OrderByGrammar, \<open>f\<close> for OrderByField, \<open>c\<close> for APICapability).
\<close>

subsection \<open>Characters\<close>

abbreviation SQ :: char where "SQ \<equiv> CHR 0x27"
abbreviation DQ :: char where "DQ \<equiv> CHR 0x22"
abbreviation BQ :: char where "BQ \<equiv> CHR 0x60"

definition lower_letters :: string where
  "lower_letters = ''abcdefghijklmnopqrstuvwxyz''"

definition upper_letters :: string where
  "upper_letters = ''ABCDEFGHIJKLMNOPQRSTUVWXYZ''"

definition to_upper :: "char \<Rightarrow> char" where
  "to_upper c = (case map_of (zip lower_letters upper_letters) c of Some u \<Rightarrow> u | None \<Rightarrow> c)"

definition to_lower :: "char \<Rightarrow> char" where
  "to_lower c = (case map_of (zip upper_letters lower_letters) c of Some l \<Rightarrow> l | None \<Rightarrow> c)"

definition is_digit :: "char \<Rightarrow> bool" where
  "is_digit c = (c \<in> set ''0123456789'')"

text \<open>The regexp classes \<^verbatim>\<open>\w\<close> and \<^verbatim>\<open>\s\<close> (the latter has no vertical tab).\<close>

definition is_word :: "char \<Rightarrow> bool" where
  "is_word c = (c \<in> set (lower_letters @ upper_letters @ ''0123456789_''))"

definition is_space_re :: "char \<Rightarrow> bool" where
  "is_space_re c = (c \<in> set [CHR 0x09, CHR 0x0A, CHR 0x0C, CHR 0x0D, CHR 0x20])"

text \<open>\<^verbatim>\<open>unicode.IsSpace\<close> on ASCII, as used by TrimSpace and Fields.\<close>

definition is_space :: "char \<Rightarrow> bool" where
  "is_space c = (c \<in> set [CHR 0x09, CHR 0x0A, CHR 0x0B, CHR 0x0C, CHR 0x0D, CHR 0x20])"

subsection \<open>Package strings\<close>

definition ToUpper :: "string \<Rightarrow> string" where
  "ToUpper s = map to_upper s"

definition ToLower :: "string \<Rightarrow> string" where
  "ToLower s = map to_lower s"

definition HasPrefix :: "string \<Rightarrow> string \<Rightarrow> bool" where
  "HasPrefix s pre = (take (length pre) s = pre)"

definition HasSuffix :: "string \<Rightarrow> string \<Rightarrow> bool" where
  "HasSuffix s suf = (length suf \<le> length s \<and> drop (length s - length suf) s = suf)"

definition TrimPrefix :: "string \<Rightarrow> string \<Rightarrow> string" where
  "TrimPrefix s pre = (if HasPrefix s pre then drop (length pre) s else s)"

definition TrimSuffix :: "string \<Rightarrow> string \<Rightarrow> string" where
  "TrimSuffix s suf = (if HasSuffix s suf then take (length s - length suf) s else s)"

fun Contains :: "string \<Rightarrow> string \<Rightarrow> bool" where
  "Contains [] sub = (sub = [])"
| "Contains (x # xs) sub = (HasPrefix (x # xs) sub \<or> Contains xs sub)"

definition Trim :: "string \<Rightarrow> string \<Rightarrow> string" where
  "Trim s cutset =
     rev (dropWhile (\<lambda>c. c \<in> set cutset) (rev (dropWhile (\<lambda>c. c \<in> set cutset) s)))"

definition TrimSpace :: "string \<Rightarrow> string" where
  "TrimSpace s = rev (dropWhile is_space (rev (dropWhile is_space s)))"

text \<open>
  \<^verbatim>\<open>strings.Split(s, sep)\<close> for a non-empty separator (every call site passes a literal):
  the pieces between the non-overlapping occurrences of \<open>sep\<close>, found left to right.
\<close>

fun split_go :: "string \<Rightarrow> string \<Rightarrow> string \<Rightarrow> string list" where
  "split_go sep cur [] = [cur]"
| "split_go sep cur (x # xs) =
     (if HasPrefix (x # xs) sep then cur # split_go sep [] (drop (length sep - 1) xs)
      else split_go sep (cur @ [x]) xs)"

definition Split :: "string \<Rightarrow> string \<Rightarrow> string list" where
  "Split s sep = split_go sep [] s"

fun fields_go :: "string \<Rightarrow> string \<Rightarrow> string list" where
  "fields_go cur [] = (if cur = [] then [] else [cur])"
| "fields_go cur (x # xs) =
     (if is_space x then (if cur = [] then fields_go [] xs else cur # fields_go [] xs)
      else fields_go (cur @ [x]) xs)"

definition Fields :: "string \<Rightarrow> string list" where
  "Fields s = fields_go [] s"

text \<open>\<^verbatim>\<open>strings.Replace(s, old, new, 1)\<close> for a non-empty \<open>old\<close>.\<close>

fun Replace1 :: "string \<Rightarrow> string \<Rightarrow> string \<Rightarrow> string" where
  "Replace1 [] old new = []"
| "Replace1 (x # xs) old new =
     (if HasPrefix (x # xs) old then new @ drop (length old) (x # xs)
      else x # Replace1 xs old new)"

fun Join :: "string list \<Rightarrow> string \<Rightarrow> string" where
  "Join [] sep = []"
| "Join [x] sep = x"
| "Join (x # xs) sep = x @ sep @ Join xs sep"

text \<open>The helper \<^verbatim>\<open>contains(slice, item)\<close> that each package declares.\<close>

definition contains :: "string list \<Rightarrow> string \<Rightarrow> bool" where
  "contains slice item = (item \<in> set slice)"

subsection \<open>Package strconv\<close>

definition digit_val :: "char \<Rightarrow> nat" where
  "digit_val c = length (takeWhile (\<lambda>d. d \<noteq> c) ''0123456789'')"

definition dec_val :: "string \<Rightarrow> nat" where
  "dec_val ds = foldl (\<lambda>a d. 10 * a + digit_val d) 0 ds"

text \<open>
  \<^verbatim>\<open>strconv.Atoi\<close>: an optional sign, then one or more decimal digits and nothing else;
  a value outside the 64-bit range is an error.
\<close>

definition Atoi :: "string \<Rightarrow> int option" where
  "Atoi s =
     (let neg = (case s of [] \<Rightarrow> False | x # _ \<Rightarrow> x = CHR ''-'');
          ds = (case s of [] \<Rightarrow> [] | x # r \<Rightarrow> if x = CHR ''-'' \<or> x = CHR ''+'' then r else s)
      in if ds = [] \<or> \<not> list_all is_digit ds then None
         else let v = (if neg then - int (dec_val ds) else int (dec_val ds))
              in if v < - (2 ^ 63) \<or> 2 ^ 63 \<le> v then None else Some v)"

function nat_digits :: "nat \<Rightarrow> string" where
  "nat_digits n =
     (if n < 10 then [''0123456789'' ! n] else nat_digits (n div 10) @ [''0123456789'' ! (n mod 10)])"
  by pat_completeness auto
termination
  by (relation "measure id") auto

definition Itoa :: "int \<Rightarrow> string" where
  "Itoa i = (if i < 0 then CHR ''-'' # nat_digits (nat (- i)) else nat_digits (nat i))"

subsection \<open>Package regexp\<close>

text \<open>
  Every pattern of the translator is compiled with \<^verbatim>\<open>(?i)\<close> and is built from literals,
  one-character classes under \<^verbatim>\<open>+\<close>, \<^verbatim>\<open>*\<close> or \<^verbatim>\<open>+?\<close>, capture groups, concatenation,
  alternation, \<^verbatim>\<open>?\<close> and \<^verbatim>\<open>$\<close>. \<open>rmatch\<close> is a backtracking matcher over a stack of
  pending pattern pieces: it returns the capture groups of the first match in backtracking
  order, which is the match Go's leftmost-first semantics selects at a given start.
\<close>

datatype cclass = Space | Word | Digit | Dot | NotRParen

fun in_class :: "cclass \<Rightarrow> char \<Rightarrow> bool" where
  "in_class Space c = is_space_re c"
| "in_class Word c = is_word c"
| "in_class Digit c = is_digit c"
| "in_class Dot c = (c \<noteq> CHR 0x0A)"
| "in_class NotRParen c = (c \<noteq> CHR '')'')"

datatype rx = Lit string | Plus cclass | Star cclass | PlusLazy cclass
  | Group nat rx | Cat "rx list" | Alt rx rx | Opt rx | EndText

datatype frame = R rx | Close nat string

type_synonym caps = "nat \<Rightarrow> string"

text \<open>A literal under \<^verbatim>\<open>(?i)\<close>: equal up to the case of letters.\<close>

fun lit_prefix :: "string \<Rightarrow> string \<Rightarrow> bool" where
  "lit_prefix [] s = True"
| "lit_prefix (w # ws) [] = False"
| "lit_prefix (w # ws) (x # xs) = (to_upper w = to_upper x \<and> lit_prefix ws xs)"

text \<open>The inputs left after consuming 1, 2, ... characters of a class, shortest run first.\<close>

fun reps :: "cclass \<Rightarrow> string \<Rightarrow> string list" where
  "reps cl [] = []"
| "reps cl (x # xs) = (if in_class cl x then xs # reps cl xs else [])"

fun first_some :: "('a \<Rightarrow> 'b option) \<Rightarrow> 'a list \<Rightarrow> 'b option" where
  "first_some f [] = None"
| "first_some f (x # xs) = (case f x of Some r \<Rightarrow> Some r | None \<Rightarrow> first_some f xs)"

fun rx_size :: "rx \<Rightarrow> nat" where
  "rx_size (Group n r) = Suc (rx_size r)"
| "rx_size (Cat rs) = Suc (sum_list (map rx_size rs))"
| "rx_size (Alt a b) = Suc (rx_size a + rx_size b)"
| "rx_size (Opt a) = Suc (rx_size a)"
| "rx_size r = 1"

fun frame_size :: "frame \<Rightarrow> nat" where
  "frame_size (R r) = 2 * rx_size r"
| "frame_size (Close n s) = 1"

function rmatch :: "frame list \<Rightarrow> string \<Rightarrow> caps \<Rightarrow> caps option" where
  "rmatch [] s c = Some c"
| "rmatch (R (Lit w) # k) s c =
     (if lit_prefix w s then rmatch k (drop (length w) s) c else None)"
| "rmatch (R (Plus cl) # k) s c = first_some (\<lambda>s'. rmatch k s' c) (rev (reps cl s))"
| "rmatch (R (Star cl) # k) s c = first_some (\<lambda>s'. rmatch k s' c) (rev (reps cl s) @ [s])"
| "rmatch (R (PlusLazy cl) # k) s c = first_some (\<lambda>s'. rmatch k s' c) (reps cl s)"
| "rmatch (R (Group n r) # k) s c = rmatch (R r # Close n s # k) s c"
| "rmatch (Close n s0 # k) s c = rmatch k s (c(n := take (length s0 - length s) s0))"
| "rmatch (R (Cat rs) # k) s c = rmatch (map R rs @ k) s c"
| "rmatch (R (Alt a b) # k) s c =
     (case rmatch (R a # k) s c of Some m \<Rightarrow> Some m | None \<Rightarrow> rmatch (R b # k) s c)"
| "rmatch (R (Opt a) # k) s c =
     (case rmatch (R a # k) s c of Some m \<Rightarrow> Some m | None \<Rightarrow> rmatch k s c)"
| "rmatch (R EndText # k) s c = (if s = [] then rmatch k s c else None)"
  by pat_completeness auto
termination
proof (relation "measure (\<lambda>(k, s, c). sum_list (map frame_size k))")
  fix rs :: "rx list" and k :: "frame list" and s :: string and c :: caps
  have "sum_list (map frame_size (map R rs)) = 2 * sum_list (map rx_size rs)"
    by (induction rs) simp_all
  then show "((map R rs @ k, s, c), R (Cat rs) # k, s, c)
      \<in> measure (\<lambda>(k, s, c). sum_list (map frame_size k))"
    by simp
qed auto

definition match_here :: "rx \<Rightarrow> string \<Rightarrow> caps option" where
  "match_here r s = rmatch [R r] s (\<lambda>_. [])"

text \<open>
  \<^verbatim>\<open>re.FindStringSubmatch\<close>: the leftmost start at which the pattern matches. \<open>None\<close> is
  Go's nil slice; \<open>Some m\<close> is a slice of which \<open>m i\<close> is element \<open>i\<close>, the text of group
  \<open>i\<close> (empty when the group took no part). Element 0, unused by the callers, is not kept.
\<close>

fun FindStringSubmatch :: "rx \<Rightarrow> string \<Rightarrow> caps option" where
  "FindStringSubmatch r [] = match_here r []"
| "FindStringSubmatch r (x # xs) =
     (case match_here r (x # xs) of Some c \<Rightarrow> Some c | None \<Rightarrow> FindStringSubmatch r xs)"

subsection \<open>Values, queries and grammars\<close>

datatype 'f val = IntV int | FloatV 'f | StrV string

record 'f Condition =
  Column :: string
  Operator :: string
  Value :: "'f val"

record OrderByField =
  fColumn :: string
  Order :: string

record 'f ParsedQuery =
  QueryType :: string
  qTableName :: string
  Columns :: "string list"
  Values :: "'f val list"
  Updates :: "string \<rightharpoonup> 'f val"
  Conditions :: "'f Condition list"
  qOrderBy :: "OrderByField list"
  qLimit :: int
  Offset :: int

record WhereGrammar =
  wAllowedColumns :: "string \<rightharpoonup> string list"
  Suggestions :: "string list"

record OrderByGrammar =
  oAllowedColumns :: "string list"
  DefaultOrder :: string

record LimitGrammar =
  MaxLimit :: int
  DefaultLimit :: int
  HasPaging :: bool

record SQLGrammar =
  TableName :: string
  AllowedColumns :: "string list"
  WhereClause :: WhereGrammar
  OrderBy :: OrderByGrammar
  Limit :: LimitGrammar

record Parameter =
  Name :: string
  Type :: string
  Location :: string
  Required :: bool
  Format :: string
  Enum :: "string list"
  Operators :: "string list"

record APICapability =
  Path :: string
  Method :: string
  Parameters :: "Parameter list"
  ResponseColumns :: "string list"
  cTableName :: string
  BaseURL :: string
  MaxResults :: int
  cHasPaging :: bool
  PageParam :: string
  LimitParam :: string

text \<open>One constructor for each \<^verbatim>\<open>fmt.Errorf\<close> of the translator and the executor.\<close>

datatype error =
    ErrUnsupportedStatement
  | ErrInvalidSelect
  | ErrColumnNotAvailable string "string list"
  | ErrNoFrom
  | ErrTableNotFound string string
  | ErrColumnNotFilterable string
  | ErrOperatorNotSupported string string "string list"
  | ErrBetweenNotSupported string
  | ErrUnsupportedCondition string
  | ErrColumnNotOrderable string "string list"
  | ErrInvalidLimit string
  | ErrLimitExceeds int int
  | ErrInvalidOffset string
  | ErrInvalidInsert
  | ErrInsertTableNotFound string string
  | ErrCountMismatch
  | ErrInvalidUpdate
  | ErrUpdateTableNotFound string string
  | ErrInvalidSet string
  | ErrInvalidDelete
  | ErrDeleteTableNotFound string string
  | ErrDeleteWithoutWhere
  | ErrNoParameter string string
  | ErrMutationNeedsId
  | ErrBuildURL error
  | ErrUnsupportedQueryType string

subsection \<open>Package translator\<close>

text \<open>The zero-valued query that ParseSQL allocates (\<open>Updates\<close> an empty map).\<close>

definition new_query :: "'f ParsedQuery" where
  "new_query = \<lparr>QueryType = [], qTableName = [], Columns = [], Values = [],
     Updates = Map.empty, Conditions = [], qOrderBy = [], qLimit = 0, Offset = 0\<rparr>"

text \<open>\<^verbatim>\<open>(?i)SELECT\s+(.+?)\s+FROM\<close>\<close>

definition select_re :: rx where
  "select_re = Cat [Lit ''SELECT'', Plus Space, Group 1 (PlusLazy Dot), Plus Space, Lit ''FROM'']"

text \<open>\<^verbatim>\<open>(?i)FROM\s+(\w+)\<close>\<close>

definition from_re :: rx where
  "from_re = Cat [Lit ''FROM'', Plus Space, Group 1 (Plus Word)]"

text \<open>\<^verbatim>\<open>(?i)WHERE\s+(.+?)(?:\s+ORDER\s+BY|\s+LIMIT|\s*;|$)\<close>\<close>

definition where_re :: rx where
  "where_re = Cat [Lit ''WHERE'', Plus Space, Group 1 (PlusLazy Dot),
     Alt (Cat [Plus Space, Lit ''ORDER'', Plus Space, Lit ''BY''])
       (Alt (Cat [Plus Space, Lit ''LIMIT'']) (Alt (Cat [Star Space, Lit '';'']) EndText))]"

text \<open>\<^verbatim>\<open>(?i)(\w+)\s*OP\s*(.+)\<close>, with \<^verbatim>\<open>OP\<close> the quoted operator.\<close>

definition op_re :: "string \<Rightarrow> rx" where
  "op_re op = Cat [Group 1 (Plus Word), Star Space, Lit op, Star Space, Group 2 (Plus Dot)]"

text \<open>\<^verbatim>\<open>(?i)(\w+)\s+BETWEEN\s+(.+?)\s+AND\s+(.+)\<close>\<close>

definition between_re :: rx where
  "between_re = Cat [Group 1 (Plus Word), Plus Space, Lit ''BETWEEN'', Plus Space,
     Group 2 (PlusLazy Dot), Plus Space, Lit ''AND'', Plus Space, Group 3 (Plus Dot)]"

text \<open>\<^verbatim>\<open>(?i)ORDER\s+BY\s+(.+?)(?:\s+LIMIT|\s*;|$)\<close>\<close>

definition orderby_re :: rx where
  "orderby_re = Cat [Lit ''ORDER'', Plus Space, Lit ''BY'', Plus Space, Group 1 (PlusLazy Dot),
     Alt (Cat [Plus Space, Lit ''LIMIT'']) (Alt (Cat [Star Space, Lit '';'']) EndText)]"

text \<open>\<^verbatim>\<open>(?i)LIMIT\s+(\d+)(?:\s+OFFSET\s+(\d+))?\<close>\<close>

definition limit_re :: rx where
  "limit_re = Cat [Lit ''LIMIT'', Plus Space, Group 1 (Plus Digit),
     Opt (Cat [Plus Space, Lit ''OFFSET'', Plus Space, Group 2 (Plus Digit)])]"

text \<open>\<^verbatim>\<open>(?i)INSERT\s+INTO\s+(\w+)\s*\(([^)]+)\)\s*VALUES\s*\(([^)]+)\)\<close>\<close>

definition insert_re :: rx where
  "insert_re = Cat [Lit ''INSERT'', Plus Space, Lit ''INTO'', Plus Space, Group 1 (Plus Word),
     Star Space, Lit ''('', Group 2 (Plus NotRParen), Lit '')'', Star Space, Lit ''VALUES'',
     Star Space, Lit ''('', Group 3 (Plus NotRParen), Lit '')'']"

text \<open>\<^verbatim>\<open>(?i)UPDATE\s+(\w+)\s+SET\s+(.+?)(?:\s+WHERE\s+(.+?))?(?:\s*;|$)\<close>\<close>

definition update_re :: rx where
  "update_re = Cat [Lit ''UPDATE'', Plus Space, Group 1 (Plus Word), Plus Space, Lit ''SET'',
     Plus Space, Group 2 (PlusLazy Dot),
     Opt (Cat [Plus Space, Lit ''WHERE'', Plus Space, Group 3 (PlusLazy Dot)]),
     Alt (Cat [Star Space, Lit '';'']) EndText]"

text \<open>\<^verbatim>\<open>(?i)DELETE\s+FROM\s+(\w+)(?:\s+WHERE\s+(.+?))?(?:\s*;|$)\<close>\<close>

definition delete_re :: rx where
  "delete_re = Cat [Lit ''DELETE'', Plus Space, Lit ''FROM'', Plus Space, Group 1 (Plus Word),
     Opt (Cat [Plus Space, Lit ''WHERE'', Plus Space, Group 2 (PlusLazy Dot)]),
     Alt (Cat [Star Space, Lit '';'']) EndText]"

definition isColumnAllowed :: "SQLGrammar \<Rightarrow> string \<Rightarrow> bool" where
  "isColumnAllowed g column = contains (AllowedColumns g) column"

text \<open>
  parseValue strips the quotes, then tries an integer, then a float, then keeps the text.
  Its error result is always nil.
\<close>

definition parseValue :: "(string \<Rightarrow> 'f option) \<Rightarrow> string \<Rightarrow> error + 'f val" where
  "parseValue pf valueStr =
     (let v = Trim valueStr [SQ, DQ]
      in case Atoi v of Some intVal \<Rightarrow> Inr (IntV intVal)
         | None \<Rightarrow> (case pf v of Some floatVal \<Rightarrow> Inr (FloatV floatVal)
                     | None \<Rightarrow> Inr (StrV v)))"

text \<open>The column loop of parseSelect.\<close>

fun select_columns :: "SQLGrammar \<Rightarrow> string list \<Rightarrow> 'f ParsedQuery \<Rightarrow> error + 'f ParsedQuery" where
  "select_columns g [] query = Inr query"
| "select_columns g (col # cols) query =
     (let columnName = Trim (TrimSpace col) [DQ, SQ, BQ]
      in if \<not> isColumnAllowed g columnName
         then Inl (ErrColumnNotAvailable columnName (AllowedColumns g))
         else select_columns g cols (query\<lparr>Columns := Columns query @ [columnName]\<rparr>))"

definition parseSelect :: "SQLGrammar \<Rightarrow> string \<Rightarrow> 'f ParsedQuery \<Rightarrow> error + 'f ParsedQuery" where
  "parseSelect g sql query =
     (case FindStringSubmatch select_re sql of
        None \<Rightarrow> Inl ErrInvalidSelect
      | Some matches \<Rightarrow>
          (let columnsStr = TrimSpace (matches 1)
           in if columnsStr = ''*''
              then Inr (query\<lparr>Columns := Columns query @ AllowedColumns g\<rparr>)
              else select_columns g (Split columnsStr '','') query))"

definition parseFrom :: "string \<Rightarrow> 'f ParsedQuery \<Rightarrow> error + 'f ParsedQuery" where
  "parseFrom sql query =
     (case FindStringSubmatch from_re sql of
        None \<Rightarrow> Inl ErrNoFrom
      | Some matches \<Rightarrow> Inr (query\<lparr>qTableName := TrimSpace (matches 1)\<rparr>))"

definition operators :: "string list" where
  "operators = [''>='', ''<='', ''!='', ''<>'', ''>'', ''<'', ''='', ''LIKE'', ''ILIKE'']"

text \<open>
  The body of the operator loop of parseCondition once the pattern of \<open>op\<close> has matched:
  the column must be projectable, the operator must be listed for it, the value is parsed.
\<close>

definition operator_condition ::
  "(string \<Rightarrow> 'f option) \<Rightarrow> SQLGrammar \<Rightarrow> string \<Rightarrow> caps \<Rightarrow> error + 'f Condition" where
  "operator_condition pf g op matches =
     (let column = TrimSpace (matches 1); valueStr = TrimSpace (matches 2)
      in if \<not> isColumnAllowed g column then Inl (ErrColumnNotFilterable column)
         else case wAllowedColumns (WhereClause g) column of
                None \<Rightarrow> Inl (ErrOperatorNotSupported op column [])
              | Some allowedOps \<Rightarrow>
                  if \<not> contains allowedOps op then Inl (ErrOperatorNotSupported op column allowedOps)
                  else (case parseValue pf valueStr of
                          Inl err \<Rightarrow> Inl err
                        | Inr v \<Rightarrow> Inr \<lparr>Column = column, Operator = op, Value = v\<rparr>))"

text \<open>The part of parseCondition after the operator loop.\<close>

definition between_condition ::
  "(string \<Rightarrow> 'f option) \<Rightarrow> SQLGrammar \<Rightarrow> string \<Rightarrow> error + 'f Condition" where
  "between_condition pf g condStr =
     (case FindStringSubmatch between_re condStr of
        None \<Rightarrow> Inl (ErrUnsupportedCondition condStr)
      | Some matches \<Rightarrow>
          (let column = TrimSpace (matches 1); fromStr = TrimSpace (matches 2);
               toStr = TrimSpace (matches 3)
           in if \<not> isColumnAllowed g column then Inl (ErrColumnNotFilterable column)
              else case wAllowedColumns (WhereClause g) column of
                     None \<Rightarrow> Inl (ErrBetweenNotSupported column)
                   | Some allowedOps \<Rightarrow>
                       if \<not> contains allowedOps ''BETWEEN'' then Inl (ErrBetweenNotSupported column)
                       else (case parseValue pf fromStr of
                               Inl err \<Rightarrow> Inl err
                             | Inr fromValue \<Rightarrow>
                                 (case parseValue pf toStr of
                                    Inl err \<Rightarrow> Inl err
                                  | Inr _ \<Rightarrow>
                                      Inr \<lparr>Column = column, Operator = ''>='', Value = fromValue\<rparr>))))"

fun condition_loop ::
  "(string \<Rightarrow> 'f option) \<Rightarrow> SQLGrammar \<Rightarrow> string list \<Rightarrow> string \<Rightarrow> error + 'f Condition" where
  "condition_loop pf g [] condStr = between_condition pf g condStr"
| "condition_loop pf g (op # ops) condStr =
     (case FindStringSubmatch (op_re op) condStr of
        Some matches \<Rightarrow> operator_condition pf g op matches
      | None \<Rightarrow> condition_loop pf g ops condStr)"

definition parseCondition ::
  "(string \<Rightarrow> 'f option) \<Rightarrow> SQLGrammar \<Rightarrow> string \<Rightarrow> error + 'f Condition" where
  "parseCondition pf g condStr = condition_loop pf g operators condStr"

text \<open>The loop of parseWhere over the pieces between \<^verbatim>\<open>" AND "\<close>.\<close>

fun where_conditions ::
  "(string \<Rightarrow> 'f option) \<Rightarrow> SQLGrammar \<Rightarrow> string list \<Rightarrow> 'f ParsedQuery \<Rightarrow> error + 'f ParsedQuery" where
  "where_conditions pf g [] query = Inr query"
| "where_conditions pf g (condStr # rest) query =
     (case parseCondition pf g (TrimSpace condStr) of
        Inl err \<Rightarrow> Inl err
      | Inr condition \<Rightarrow>
          where_conditions pf g rest (query\<lparr>Conditions := Conditions query @ [condition]\<rparr>))"

definition parseWhere ::
  "(string \<Rightarrow> 'f option) \<Rightarrow> SQLGrammar \<Rightarrow> string \<Rightarrow> 'f ParsedQuery \<Rightarrow> error + 'f ParsedQuery" where
  "parseWhere pf g sql query =
     (case FindStringSubmatch where_re sql of
        None \<Rightarrow> Inr query
      | Some matches \<Rightarrow>
          where_conditions pf g (Split (TrimSpace (matches 1)) '' AND '') query)"

text \<open>The loop of parseOrderBy over the comma-separated fields.\<close>

fun order_fields :: "SQLGrammar \<Rightarrow> string list \<Rightarrow> 'f ParsedQuery \<Rightarrow> error + 'f ParsedQuery" where
  "order_fields g [] query = Inr query"
| "order_fields g (fieldStr # rest) query =
     (case Fields (TrimSpace fieldStr) of
        [] \<Rightarrow> order_fields g rest query
      | column # others \<Rightarrow>
          (let order = (case others of [] \<Rightarrow> ''ASC''
                        | orderWord # _ \<Rightarrow> if ToUpper orderWord = ''DESC'' then ''DESC'' else ''ASC'')
           in if \<not> contains (oAllowedColumns (OrderBy g)) column
              then Inl (ErrColumnNotOrderable column (oAllowedColumns (OrderBy g)))
              else order_fields g rest
                     (query\<lparr>qOrderBy := qOrderBy query @ [\<lparr>fColumn = column, Order = order\<rparr>]\<rparr>)))"

definition parseOrderBy :: "SQLGrammar \<Rightarrow> string \<Rightarrow> 'f ParsedQuery \<Rightarrow> error + 'f ParsedQuery" where
  "parseOrderBy g sql query =
     (case FindStringSubmatch orderby_re sql of
        None \<Rightarrow> Inr query
      | Some matches \<Rightarrow> order_fields g (Split (TrimSpace (matches 1)) '','') query)"

definition parseLimit :: "SQLGrammar \<Rightarrow> string \<Rightarrow> 'f ParsedQuery \<Rightarrow> error + 'f ParsedQuery" where
  "parseLimit g sql query =
     (let q0 = query\<lparr>qLimit := DefaultLimit (Limit g)\<rparr>
      in case FindStringSubmatch limit_re sql of
           None \<Rightarrow> Inr q0
         | Some matches \<Rightarrow>
             (case Atoi (matches 1) of
                None \<Rightarrow> Inl (ErrInvalidLimit (matches 1))
              | Some limit \<Rightarrow>
                  if limit > MaxLimit (Limit g) then Inl (ErrLimitExceeds limit (MaxLimit (Limit g)))
                  else if matches 2 \<noteq> []
                       then (case Atoi (matches 2) of
                               None \<Rightarrow> Inl (ErrInvalidOffset (matches 2))
                             | Some offset \<Rightarrow> Inr (q0\<lparr>qLimit := limit, Offset := offset\<rparr>))
                       else Inr (q0\<lparr>qLimit := limit\<rparr>)))"

text \<open>parseSelectQuery, in two parts: the steps before parseLimit, then parseLimit.\<close>

definition select_clauses ::
  "(string \<Rightarrow> 'f option) \<Rightarrow> SQLGrammar \<Rightarrow> string \<Rightarrow> 'f ParsedQuery \<Rightarrow> error + 'f ParsedQuery" where
  "select_clauses pf g sql query =
     (case parseSelect g sql query of
        Inl err \<Rightarrow> Inl err
      | Inr q1 \<Rightarrow>
          (case parseFrom sql q1 of
             Inl err \<Rightarrow> Inl err
           | Inr q2 \<Rightarrow>
               if qTableName q2 \<noteq> TableName g
               then Inl (ErrTableNotFound (qTableName q2) (TableName g))
               else (case parseWhere pf g sql q2 of
                       Inl err \<Rightarrow> Inl err
                     | Inr q3 \<Rightarrow> parseOrderBy g sql q3)))"

definition parseSelectQuery ::
  "(string \<Rightarrow> 'f option) \<Rightarrow> SQLGrammar \<Rightarrow> string \<Rightarrow> 'f ParsedQuery \<Rightarrow> error + 'f ParsedQuery" where
  "parseSelectQuery pf g sql query =
     (case select_clauses pf g sql query of
        Inl err \<Rightarrow> Inl err
      | Inr q4 \<Rightarrow> parseLimit g sql q4)"

text \<open>The two loops of parseInsertQuery.\<close>

fun insert_columns :: "string list \<Rightarrow> 'f ParsedQuery \<Rightarrow> 'f ParsedQuery" where
  "insert_columns [] query = query"
| "insert_columns (col # cols) query =
     insert_columns cols (query\<lparr>Columns := Columns query @ [TrimSpace col]\<rparr>)"

fun insert_values ::
  "(string \<Rightarrow> 'f option) \<Rightarrow> string list \<Rightarrow> 'f ParsedQuery \<Rightarrow> error + 'f ParsedQuery" where
  "insert_values pf [] query = Inr query"
| "insert_values pf (v # vs) query =
     (case parseValue pf (TrimSpace v) of
        Inl err \<Rightarrow> Inl err
      | Inr x \<Rightarrow> insert_values pf vs (query\<lparr>Values := Values query @ [x]\<rparr>))"

definition parseInsertQuery ::
  "(string \<Rightarrow> 'f option) \<Rightarrow> SQLGrammar \<Rightarrow> string \<Rightarrow> 'f ParsedQuery \<Rightarrow> error + 'f ParsedQuery" where
  "parseInsertQuery pf g sql query =
     (case FindStringSubmatch insert_re sql of
        None \<Rightarrow> Inl ErrInvalidInsert
      | Some matches \<Rightarrow>
          (let q1 = query\<lparr>qTableName := TrimSpace (matches 1)\<rparr>;
               expectedTable = TrimSuffix (TableName g) ''_post''
           in if qTableName q1 \<noteq> expectedTable
              then Inl (ErrInsertTableNotFound (qTableName q1) expectedTable)
              else (let q2 = insert_columns (Split (matches 2) '','') q1;
                        vals = Split (matches 3) '',''
                    in if length vals \<noteq> length (Columns q2) then Inl ErrCountMismatch
                       else insert_values pf vals q2)))"

text \<open>The assignment loop of parseUpdateQuery.\<close>

fun update_assignments ::
  "(string \<Rightarrow> 'f option) \<Rightarrow> string list \<Rightarrow> 'f ParsedQuery \<Rightarrow> error + 'f ParsedQuery" where
  "update_assignments pf [] query = Inr query"
| "update_assignments pf (assignment # rest) query =
     (case Split assignment ''='' of
        [p0, p1] \<Rightarrow>
          (case parseValue pf (TrimSpace p1) of
             Inl err \<Rightarrow> Inl err
           | Inr v \<Rightarrow>
               update_assignments pf rest (query\<lparr>Updates := (Updates query)(TrimSpace p0 \<mapsto> v)\<rparr>))
      | _ \<Rightarrow> Inl (ErrInvalidSet assignment))"

definition parseUpdateQuery ::
  "(string \<Rightarrow> 'f option) \<Rightarrow> SQLGrammar \<Rightarrow> string \<Rightarrow> 'f ParsedQuery \<Rightarrow> error + 'f ParsedQuery" where
  "parseUpdateQuery pf g sql query =
     (case FindStringSubmatch update_re sql of
        None \<Rightarrow> Inl ErrInvalidUpdate
      | Some matches \<Rightarrow>
          (let q1 = query\<lparr>qTableName := TrimSpace (matches 1)\<rparr>;
               expectedTable = TrimSuffix (TrimSuffix (TableName g) ''_put'') ''_patch''
           in if qTableName q1 \<noteq> expectedTable
              then Inl (ErrUpdateTableNotFound (qTableName q1) expectedTable)
              else (case update_assignments pf (Split (matches 2) '','') q1 of
                      Inl err \<Rightarrow> Inl err
                    | Inr q2 \<Rightarrow>
                        if matches 3 \<noteq> []
                        then (case parseCondition pf g (matches 3) of
                                Inl err \<Rightarrow> Inl err
                              | Inr condition \<Rightarrow>
                                  Inr (q2\<lparr>Conditions := Conditions q2 @ [condition]\<rparr>))
                        else Inr q2)))"

definition parseDeleteQuery ::
  "(string \<Rightarrow> 'f option) \<Rightarrow> SQLGrammar \<Rightarrow> string \<Rightarrow> 'f ParsedQuery \<Rightarrow> error + 'f ParsedQuery" where
  "parseDeleteQuery pf g sql query =
     (case FindStringSubmatch delete_re sql of
        None \<Rightarrow> Inl ErrInvalidDelete
      | Some matches \<Rightarrow>
          (let q1 = query\<lparr>qTableName := TrimSpace (matches 1)\<rparr>;
               expectedTable = TrimSuffix (TableName g) ''_delete''
           in if qTableName q1 \<noteq> expectedTable
              then Inl (ErrDeleteTableNotFound (qTableName q1) expectedTable)
              else if matches 2 \<noteq> []
                   then (case parseCondition pf g (matches 2) of
                           Inl err \<Rightarrow> Inl err
                         | Inr condition \<Rightarrow>
                             Inr (q1\<lparr>Conditions := Conditions q1 @ [condition]\<rparr>))
                   else Inl ErrDeleteWithoutWhere))"

text \<open>The normalisation at the head of ParseSQL: trim, and end with a semicolon.\<close>

definition normalize :: "string \<Rightarrow> string" where
  "normalize sql = (let s = TrimSpace sql in if \<not> HasSuffix s '';'' then s @ '';'' else s)"

definition ParseSQL ::
  "(string \<Rightarrow> 'f option) \<Rightarrow> SQLGrammar \<Rightarrow> string \<Rightarrow> error + 'f ParsedQuery" where
  "ParseSQL pf g sql0 =
     (let sql = normalize sql0; sqlUpper = ToUpper sql
      in if HasPrefix sqlUpper ''SELECT''
         then parseSelectQuery pf g sql (new_query\<lparr>QueryType := ''SELECT''\<rparr>)
         else if HasPrefix sqlUpper ''INSERT''
         then parseInsertQuery pf g sql (new_query\<lparr>QueryType := ''INSERT''\<rparr>)
         else if HasPrefix sqlUpper ''UPDATE''
         then parseUpdateQuery pf g sql (new_query\<lparr>QueryType := ''UPDATE''\<rparr>)
         else if HasPrefix sqlUpper ''DELETE''
         then parseDeleteQuery pf g sql (new_query\<lparr>QueryType := ''DELETE''\<rparr>)
         else Inl ErrUnsupportedStatement)"

subsection \<open>Package parser: operator inference\<close>

definition detectOperators :: "string \<Rightarrow> string \<Rightarrow> string list" where
  "detectOperators paramName paramType =
     (let name = ToLower paramName;
          ops0 = [''=''];
          ops1 =
            (if paramType = ''integer'' \<or> paramType = ''number'' \<or>
                Contains name ''date'' \<or> Contains name ''time''
             then (let a = ops0
                         @ (if HasSuffix name ''_gt'' \<or> HasSuffix name ''_greater'' then [''>''] else [])
                         @ (if HasSuffix name ''_gte'' \<or> HasSuffix name ''_min'' then [''>=''] else [])
                         @ (if HasSuffix name ''_lt'' \<or> HasSuffix name ''_less'' then [''<''] else [])
                         @ (if HasSuffix name ''_lte'' \<or> HasSuffix name ''_max'' then [''<=''] else [])
                         @ (if HasSuffix name ''_between'' then [''BETWEEN''] else [])
                   in if length a = 1 then a @ [''>'', ''>='', ''<'', ''<=''] else a)
             else ops0);
          ops2 =
            (if paramType = ''string''
             then ops1
                  @ (if Contains name ''search'' \<or> Contains name ''query'' \<or>
                        Contains name ''filter'' \<or> Contains name ''name''
                     then [''LIKE'', ''ILIKE''] else [])
                  @ (if HasSuffix name ''_in'' then [''IN''] else [])
             else ops1)
      in ops2 @ (if HasSuffix name ''_not'' \<or> HasSuffix name ''_ne'' then [''!='', ''<>''] else []))"

text \<open>
  extractTableName: the last path segment that is neither a path parameter nor one of the
  prefixes \<^verbatim>\<open>api\<close>, \<^verbatim>\<open>v1\<close>, \<^verbatim>\<open>v2\<close>, \<^verbatim>\<open>v3\<close>; empty when there is none.
\<close>

definition extractTableName :: "string \<Rightarrow> string" where
  "extractTableName path =
     (case find (\<lambda>part. \<not> HasPrefix part ''{'' \<and> \<not> HasSuffix part ''}'' \<and>
                        part \<noteq> ''api'' \<and> part \<noteq> ''v1'' \<and> part \<noteq> ''v2'' \<and> part \<noteq> ''v3'')
             (rev (Split (TrimPrefix path ''/'') ''/'')) of
        Some part \<Rightarrow> part
      | None \<Rightarrow> [])"

subsection \<open>Package grammar\<close>

definition isPaginationParam :: "string \<Rightarrow> bool" where
  "isPaginationParam paramName =
     list_ex (\<lambda>param. Contains (ToLower paramName) param)
       [''limit'', ''offset'', ''page'', ''per_page'', ''page_size'', ''size'']"

definition suffixes :: "string list" where
  "suffixes = [''_gt'', ''_gte'', ''_lt'', ''_lte'', ''_ne'', ''_not'', ''_in'', ''_like'',
     ''_between'', ''_min'', ''_max'']"

definition extractColumnName :: "string \<Rightarrow> string" where
  "extractColumnName paramName =
     (let name = ToLower paramName
      in case find (\<lambda>sfx. HasSuffix name sfx) suffixes of
           Some sfx \<Rightarrow> TrimSuffix name sfx
         | None \<Rightarrow> paramName)"

definition param_suggestions :: "Parameter \<Rightarrow> string list" where
  "param_suggestions param =
     (let columnName = extractColumnName (Name param)
      in (if (Type param = ''integer'' \<or> Type param = ''number'' \<or>
              Contains (ToLower (Name param)) ''date'') \<and>
             \<not> list_ex (\<lambda>op. op = ''>'' \<or> op = ''>='' \<or> op = ''<'' \<or> op = ''<='') (Operators param)
          then [''Add range filtering for '' @ [SQ] @ columnName @ [SQ] @ '' (e.g., '' @ columnName
                @ ''_gt, '' @ columnName @ ''_lt parameters)'']
          else [])
         @ (if Type param = ''string'' \<and> \<not> contains (Operators param) ''LIKE''
            then [''Add partial text search for '' @ [SQ] @ columnName @ [SQ] @ '' (e.g., ''
                  @ columnName @ ''_like parameter)'']
            else [])
         @ (if Enum param \<noteq> [] \<and> \<not> contains (Operators param) ''IN''
            then [''Add multiple value filtering for '' @ [SQ] @ columnName @ [SQ] @ '' (e.g., ''
                  @ columnName @ ''_in parameter)'']
            else []))"

definition generateSuggestions :: "APICapability \<Rightarrow> string list" where
  "generateSuggestions capability =
     concat (map param_suggestions (Parameters capability))
     @ (if \<not> cHasPaging capability
        then [''Add pagination support (e.g., '' @ [SQ] @ ''limit'' @ [SQ] @ '' and '' @ [SQ]
              @ ''offset'' @ [SQ] @ '' or '' @ [SQ] @ ''page'' @ [SQ] @ '' parameters)'']
        else [])
     @ (if Parameters capability \<noteq> [] \<and>
           \<not> list_ex (\<lambda>param. Contains (ToLower (Name param)) ''sort'' \<or>
                               Contains (ToLower (Name param)) ''order'') (Parameters capability)
        then [''Add sorting support (e.g., '' @ [SQ] @ ''sort_by'' @ [SQ] @ '' and '' @ [SQ]
              @ ''order'' @ [SQ] @ '' parameters)'']
        else [])"

text \<open>The parameter loop of GenerateGrammar; the map entry of a column is assigned.\<close>

fun grammar_params :: "APICapability \<Rightarrow> Parameter list \<Rightarrow> SQLGrammar \<Rightarrow> SQLGrammar" where
  "grammar_params capability [] grammar = grammar"
| "grammar_params capability (param # rest) grammar =
     (if isPaginationParam (Name param) then grammar_params capability rest grammar
      else (let columnName = extractColumnName (Name param)
            in if columnName = [] then grammar_params capability rest grammar
               else (let g1 = grammar\<lparr>WhereClause := (WhereClause grammar)
                                 \<lparr>wAllowedColumns := (wAllowedColumns (WhereClause grammar))
                                    (columnName \<mapsto> (if Operators param \<noteq> [] then Operators param
                                                      else [''='']))\<rparr>\<rparr>;
                         g2 = (if ResponseColumns capability = []
                               then g1\<lparr>AllowedColumns := AllowedColumns g1 @ [columnName],
                                       OrderBy := (OrderBy g1)
                                         \<lparr>oAllowedColumns := oAllowedColumns (OrderBy g1) @ [columnName]\<rparr>\<rparr>
                               else g1)
                     in grammar_params capability rest g2)))"

definition GenerateGrammar :: "APICapability \<Rightarrow> SQLGrammar" where
  "GenerateGrammar capability =
     (let grammar0 = \<lparr>TableName = cTableName capability, AllowedColumns = [],
                       WhereClause = \<lparr>wAllowedColumns = Map.empty, Suggestions = []\<rparr>,
                       OrderBy = \<lparr>oAllowedColumns = [], DefaultOrder = []\<rparr>,
                       Limit = \<lparr>MaxLimit = MaxResults capability, DefaultLimit = 100,
                                HasPaging = cHasPaging capability\<rparr>\<rparr>;
          grammar1 = (if ResponseColumns capability \<noteq> []
                      then grammar0\<lparr>AllowedColumns := ResponseColumns capability,
                                    OrderBy := (OrderBy grammar0)
                                      \<lparr>oAllowedColumns := ResponseColumns capability\<rparr>\<rparr>
                      else grammar0);
          grammar2 = grammar_params capability (Parameters capability) grammar1;
          grammar3 = grammar2\<lparr>WhereClause := (WhereClause grammar2)
                       \<lparr>Suggestions := generateSuggestions capability\<rparr>\<rparr>
      in if MaxLimit (Limit grammar3) = 0
         then grammar3\<lparr>Limit := (Limit grammar3)\<lparr>MaxLimit := 1000\<rparr>\<rparr>
         else grammar3)"

subsection \<open>Package executor\<close>

text \<open>\<^verbatim>\<open>fmt.Sprintf("%v", v)\<close> on a parsed value.\<close>

fun fmt_value :: "('f \<Rightarrow> string) \<Rightarrow> 'f val \<Rightarrow> string" where
  "fmt_value ff (IntV i) = Itoa i"
| "fmt_value ff (FloatV x) = ff x"
| "fmt_value ff (StrV s) = s"

definition matchesOperatorPattern :: "string \<Rightarrow> string \<Rightarrow> string \<Rightarrow> bool" where
  "matchesOperatorPattern paramName column operator =
     (let paramLower = ToLower paramName; columnLower = ToLower column
      in if \<not> HasPrefix paramLower columnLower then False
         else (let sfx = TrimPrefix paramLower (columnLower @ ''_'')
               in if operator = ''>'' then sfx = ''gt'' \<or> sfx = ''greater''
                  else if operator = ''>='' then sfx = ''gte'' \<or> sfx = ''min''
                  else if operator = ''<'' then sfx = ''lt'' \<or> sfx = ''less''
                  else if operator = ''<='' then sfx = ''lte'' \<or> sfx = ''max''
                  else if operator = ''!='' then sfx = ''ne'' \<or> sfx = ''not''
                  else if operator = ''LIKE''
                  then sfx = ''like'' \<or> sfx = ''search'' \<or> sfx = ''contains''
                  else if operator = ''IN'' then sfx = ''in''
                  else False))"

fun convertConditionToParam ::
  "('f \<Rightarrow> string) \<Rightarrow> Parameter list \<Rightarrow> 'f Condition \<Rightarrow> error + string \<times> string" where
  "convertConditionToParam ff [] condition =
     Inl (ErrNoParameter (Column condition) (Operator condition))"
| "convertConditionToParam ff (param # rest) condition =
     (if ToLower (Name param) = ToLower (Column condition) \<and>
         contains (Operators param) (Operator condition)
      then Inr (Name param, fmt_value ff (Value condition))
      else if matchesOperatorPattern (Name param) (Column condition) (Operator condition)
      then Inr (Name param, fmt_value ff (Value condition))
      else convertConditionToParam ff rest condition)"

definition find_param :: "(string \<Rightarrow> bool) \<Rightarrow> Parameter list \<Rightarrow> string" where
  "find_param ok params =
     (case find (\<lambda>param. ok (ToLower (Name param))) params of
        Some param \<Rightarrow> Name param
      | None \<Rightarrow> [])"

definition findSortParameter :: "APICapability \<Rightarrow> string" where
  "findSortParameter capability =
     find_param (\<lambda>name. Contains name ''sort'' \<or> Contains name ''order'') (Parameters capability)"

definition findLimitParameter :: "APICapability \<Rightarrow> string" where
  "findLimitParameter capability =
     find_param (\<lambda>name. Contains name ''limit'' \<or> Contains name ''size'' \<or> Contains name ''per_page'')
       (Parameters capability)"

definition findOffsetParameter :: "APICapability \<Rightarrow> string" where
  "findOffsetParameter capability =
     find_param (\<lambda>name. Contains name ''offset'' \<or> Contains name ''page'') (Parameters capability)"

definition buildSortValue :: "OrderByField list \<Rightarrow> string" where
  "buildSortValue orderBy =
     Join (map (\<lambda>field. if Order field = ''DESC'' then ''-'' @ fColumn field else fColumn field)
             orderBy) '',''"

text \<open>
  \<^verbatim>\<open>url.Values\<close> as the list of added pairs; \<^verbatim>\<open>Encode\<close> writes the keys in byte order,
  the values of one key in the order they were added, each escaped by \<^verbatim>\<open>QueryEscape\<close>.
\<close>

definition hex_digits :: string where
  "hex_digits = ''0123456789ABCDEF''"

definition escape_char :: "char \<Rightarrow> string" where
  "escape_char c =
     (if is_word c \<or> c = CHR ''-'' \<or> c = CHR ''.'' \<or> c = CHR ''~'' then [c]
      else if c = CHR '' '' then ''+''
      else [CHR ''%'', hex_digits ! ((of_char c :: nat) div 16), hex_digits ! ((of_char c :: nat) mod 16)])"

definition QueryEscape :: "string \<Rightarrow> string" where
  "QueryEscape s = concat (map escape_char s)"

fun str_less :: "string \<Rightarrow> string \<Rightarrow> bool" where
  "str_less [] [] = False"
| "str_less [] (y # ys) = True"
| "str_less (x # xs) [] = False"
| "str_less (x # xs) (y # ys) =
     ((of_char x :: nat) < of_char y \<or> (x = y \<and> str_less xs ys))"

fun insert_key :: "string \<Rightarrow> string list \<Rightarrow> string list" where
  "insert_key k [] = [k]"
| "insert_key k (x # xs) =
     (if k = x then x # xs else if str_less k x then k # x # xs else x # insert_key k xs)"

definition Encode :: "(string \<times> string) list \<Rightarrow> string" where
  "Encode params =
     Join (concat (map (\<lambda>k. map (\<lambda>(_, v). QueryEscape k @ ''='' @ QueryEscape v)
                                (filter (\<lambda>(k', _). k' = k) params))
                       (foldr insert_key (map fst params) [])))
          ''&''"

fun condition_params ::
  "('f \<Rightarrow> string) \<Rightarrow> APICapability \<Rightarrow> 'f Condition list \<Rightarrow> (string \<times> string) list
     \<Rightarrow> error + (string \<times> string) list" where
  "condition_params ff capability [] params = Inr params"
| "condition_params ff capability (condition # rest) params =
     (case convertConditionToParam ff (Parameters capability) condition of
        Inl err \<Rightarrow> Inl err
      | Inr (paramName, paramValue) \<Rightarrow>
          condition_params ff capability rest
            (if paramName \<noteq> [] then params @ [(paramName, paramValue)] else params))"

definition buildAPIURL ::
  "('f \<Rightarrow> string) \<Rightarrow> APICapability \<Rightarrow> 'f ParsedQuery \<Rightarrow> error + string" where
  "buildAPIURL ff capability query =
     (let baseURL = BaseURL capability @ Path capability
      in case condition_params ff capability (Conditions query) [] of
           Inl err \<Rightarrow> Inl err
         | Inr p0 \<Rightarrow>
             (let p1 = (if qOrderBy query \<noteq> [] \<and> findSortParameter capability \<noteq> []
                        then p0 @ [(findSortParameter capability, buildSortValue (qOrderBy query))]
                        else p0);
                  p2 = (if qLimit query > 0 \<and> findLimitParameter capability \<noteq> []
                        then p1 @ [(findLimitParameter capability, Itoa (qLimit query))]
                        else p1);
                  p3 = (if Offset query > 0 \<and> findOffsetParameter capability \<noteq> []
                        then p2 @ [(findOffsetParameter capability, Itoa (Offset query))]
                        else p2)
              in if p3 \<noteq> [] then Inr (baseURL @ ''?'' @ Encode p3) else Inr baseURL))"

text \<open>The scan of buildMutationURL for the first condition \<^verbatim>\<open>id = value\<close>.\<close>

fun mutation_scan ::
  "('f \<Rightarrow> string) \<Rightarrow> APICapability \<Rightarrow> string \<Rightarrow> 'f Condition list \<Rightarrow> error + string" where
  "mutation_scan ff capability baseURL [] = Inl ErrMutationNeedsId"
| "mutation_scan ff capability baseURL (condition # rest) =
     (if Column condition = ''id'' \<and> Operator condition = ''=''
      then (if Contains (Path capability) ''{id}''
            then Inr (Replace1 baseURL ''{id}'' (fmt_value ff (Value condition)))
            else Inr (baseURL @ ''/'' @ fmt_value ff (Value condition)))
      else mutation_scan ff capability baseURL rest)"

definition buildMutationURL ::
  "('f \<Rightarrow> string) \<Rightarrow> APICapability \<Rightarrow> 'f ParsedQuery \<Rightarrow> error + string" where
  "buildMutationURL ff capability query =
     mutation_scan ff capability (BaseURL capability @ Path capability) (Conditions query)"

text \<open>
  The HTTP exchange is outside the embedding. A request is the triple handed to
  makeRequest; \<open>send\<close> stands for makeRequest (an error text, or a response) and \<open>decode\<close>
  for parseResponse. ExecuteQuery returns its Go result together with the list of requests
  it handed to makeRequest.

  In the SELECT, UPDATE and DELETE cases the Go \<^verbatim>\<open>err\<close> assigned by makeRequest is the
  variable declared by \<^verbatim>\<open>apiURL, err :=\<close> inside the case, so a failed request leaves the
  outer \<^verbatim>\<open>err\<close> nil and is reported by the \<^verbatim>\<open>resp == nil\<close> test; in the INSERT case it is
  the outer variable. An INSERT query with fewer values than columns panics on the index.
\<close>

datatype 'f body = NoBody | MapBody "string \<rightharpoonup> 'f val"

record 'f HTTPRequest =
  rMethod :: string
  rURL :: string
  rBody :: "'f body"

datatype 'd QueryResult = ResultError string | ResultData 'd

datatype 'd outcome = Failed error | Panicked | Returned "'d QueryResult"

fun insert_body :: "string list \<Rightarrow> 'f val list \<Rightarrow> (string \<rightharpoonup> 'f val) \<Rightarrow> (string \<rightharpoonup> 'f val) option" where
  "insert_body [] vs body = Some body"
| "insert_body (col # cols) [] body = None"
| "insert_body (col # cols) (v # vs) body = insert_body cols vs (body(col \<mapsto> v))"

definition finish_response ::
  "('r \<Rightarrow> 'f ParsedQuery \<Rightarrow> string + 'd) \<Rightarrow> 'f ParsedQuery \<Rightarrow> 'r \<Rightarrow> 'd outcome" where
  "finish_response decode query resp =
     (case decode resp query of
        Inl err \<Rightarrow> Returned (ResultError (''Failed to parse API response: '' @ err))
      | Inr d \<Rightarrow> Returned (ResultData d))"

definition ExecuteQuery ::
  "('f \<Rightarrow> string) \<Rightarrow> ('f HTTPRequest \<Rightarrow> string + 'r) \<Rightarrow> ('r \<Rightarrow> 'f ParsedQuery \<Rightarrow> string + 'd)
     \<Rightarrow> APICapability \<Rightarrow> 'f ParsedQuery \<Rightarrow> 'd outcome \<times> 'f HTTPRequest list" where
  "ExecuteQuery ff send decode capability query =
     (let shadowed = (\<lambda>req. (case send req of
                                Inl err \<Rightarrow> Returned (ResultError ''No response received from API'')
                              | Inr resp \<Rightarrow> finish_response decode query resp, [req]))
      in if QueryType query = ''SELECT''
         then (case buildAPIURL ff capability query of
                 Inl err \<Rightarrow> (Failed (ErrBuildURL err), [])
               | Inr apiURL \<Rightarrow> shadowed \<lparr>rMethod = ''GET'', rURL = apiURL, rBody = NoBody\<rparr>)
         else if QueryType query = ''INSERT''
         then (case insert_body (Columns query) (Values query) Map.empty of
                 None \<Rightarrow> (Panicked, [])
               | Some body \<Rightarrow>
                   (let req = \<lparr>rMethod = ''POST'', rURL = BaseURL capability @ Path capability,
                               rBody = MapBody body\<rparr>
                    in (case send req of
                          Inl err \<Rightarrow> Returned (ResultError (''API request failed: '' @ err))
                        | Inr resp \<Rightarrow> finish_response decode query resp, [req])))
         else if QueryType query = ''UPDATE''
         then (case buildMutationURL ff capability query of
                 Inl err \<Rightarrow> (Failed (ErrBuildURL err), [])
               | Inr apiURL \<Rightarrow>
                   shadowed \<lparr>rMethod = Method capability, rURL = apiURL,
                             rBody = MapBody (Updates query)\<rparr>)
         else if QueryType query = ''DELETE''
         then (case buildMutationURL ff capability query of
                 Inl err \<Rightarrow> (Failed (ErrBuildURL err), [])
               | Inr apiURL \<Rightarrow> shadowed \<lparr>rMethod = ''DELETE'', rURL = apiURL, rBody = NoBody\<rparr>)
         else (Failed (ErrUnsupportedQueryType (QueryType query)), []))"

subsection \<open>Example data\<close>

text \<open>
  A grammar with four response columns and three filterable parameters, under a given
  table name, and a ParseFloat that accepts nothing, for statements whose value texts are
  not floating-point literals.
\<close>

definition example_grammar :: "string \<Rightarrow> SQLGrammar" where
  "example_grammar t =
     \<lparr>TableName = t, AllowedColumns = [''id'', ''name'', ''status'', ''age''],
      WhereClause = \<lparr>wAllowedColumns = [''id'' \<mapsto> [''=''], ''status'' \<mapsto> [''=''],
                        ''age'' \<mapsto> [''='', ''BETWEEN'']],
                     Suggestions = []\<rparr>,
      OrderBy = \<lparr>oAllowedColumns = [''name''], DefaultOrder = []\<rparr>,
      Limit = \<lparr>MaxLimit = 1000, DefaultLimit = 100, HasPaging = True\<rparr>\<rparr>"

definition no_float :: "string \<Rightarrow> unit option" where
  "no_float s = None"

text \<open>The fields of a query that are not maps, and one entry of its update map.\<close>

definition query_view ::
  "'f ParsedQuery \<Rightarrow> string \<times> string \<times> string list \<times> 'f val list \<times>
     (string \<times> string \<times> 'f val) list \<times> (string \<times> string) list \<times> int \<times> int" where
  "query_view q =
     (QueryType q, qTableName q, Columns q, Values q,
      map (\<lambda>c. (Column c, Operator c, Value c)) (Conditions q),
      map (\<lambda>f. (fColumn f, Order f)) (qOrderBy q), qLimit q, Offset q)"

definition assigned :: "string \<Rightarrow> 'f ParsedQuery \<Rightarrow> 'f val option" where
  "assigned k q = Updates q k"

text \<open>
  A query parameter as parseOperation builds it, and a capability for \<^verbatim>\<open>GET /users\<close>
  with no response schema, given its parameters and its maximum-results bound.
\<close>

definition query_param :: "string \<Rightarrow> string \<Rightarrow> Parameter" where
  "query_param n t =
     \<lparr>Name = n, Type = t, Location = ''query'', Required = False, Format = [], Enum = [],
      Operators = detectOperators n t\<rparr>"

definition users_capability :: "Parameter list \<Rightarrow> int \<Rightarrow> APICapability" where
  "users_capability ps mx =
     \<lparr>Path = ''/users'', Method = ''GET'', Parameters = ps, ResponseColumns = [],
      cTableName = ''users'', BaseURL = ''https://api.example.com'', MaxResults = mx,
      cHasPaging = True, PageParam = [], LimitParam = ''limit''\<rparr>"

text \<open>
  A capability for the pet resource under a given verb and path, a float rendering and a
  transport for queries that hold no float and are not sent.
\<close>

definition pet_capability :: "string \<Rightarrow> string \<Rightarrow> APICapability" where
  "pet_capability method path =
     \<lparr>Path = path, Method = method, Parameters = [], ResponseColumns = [],
      cTableName = ''pet_'' @ ToLower method, BaseURL = ''https://api.example.com'',
      MaxResults = 0, cHasPaging = False, PageParam = [], LimitParam = []\<rparr>"

definition no_float_text :: "unit \<Rightarrow> string" where
  "no_float_text x = []"

definition refuse :: "unit HTTPRequest \<Rightarrow> string + unit" where
  "refuse req = Inl ''connection refused''"

definition no_rows :: "unit \<Rightarrow> unit ParsedQuery \<Rightarrow> string + unit" where
  "no_rows resp query = Inr ()"


section \<open>Library facts\<close>

subsection \<open>Trimming\<close>

lemma Trim_wrapped:
  assumes "set q1 \<subseteq> set cs" and "set q2 \<subseteq> set cs"
  shows "Trim (q1 @ s @ q2) cs = Trim s cs"
proof -
  let ?P = "\<lambda>c. c \<in> set cs"
  have front: "dropWhile ?P (q1 @ s @ q2) = dropWhile ?P (s @ q2)"
    using assms(1) by (intro dropWhile_append2) auto
  show ?thesis
  proof (cases "\<forall>x\<in>set s. ?P x")
    case True
    then have e1: "dropWhile ?P (s @ q2) = []" and e2: "dropWhile ?P s = []"
      using assms(2) by auto
    show ?thesis unfolding Trim_def front e1 e2 by simp
  next
    case False
    then obtain x where x: "x \<in> set s" "\<not> ?P x" by blast
    then have mid: "dropWhile ?P (s @ q2) = dropWhile ?P s @ q2"
      by (intro dropWhile_append1) auto
    have "dropWhile ?P (rev q2 @ rev (dropWhile ?P s)) = dropWhile ?P (rev (dropWhile ?P s))"
      using assms(2) by (intro dropWhile_append2) auto
    then show ?thesis by (simp add: Trim_def front mid)
  qed
qed

lemma Trim_id:
  assumes "s \<noteq> []" and "hd s \<notin> set cs" and "last s \<notin> set cs"
  shows "Trim s cs = s"
proof -
  have a: "dropWhile (\<lambda>c. c \<in> set cs) s = s"
    using assms(1,2) by (cases s) auto
  have b: "dropWhile (\<lambda>c. c \<in> set cs) (rev s) = rev s"
    using assms(1,3) by (cases "rev s") (auto simp: last_rev[symmetric] hd_rev)
  show ?thesis by (simp add: Trim_def a b)
qed

subsection \<open>Atoi\<close>

lemma is_digit_not_quote: "is_digit c \<Longrightarrow> c \<noteq> SQ \<and> c \<noteq> DQ"
  by (auto simp: is_digit_def)

lemma Atoi_Some_shape:
  assumes "Atoi s = Some i"
  shows "s \<noteq> [] \<and> hd s \<notin> {SQ, DQ} \<and> last s \<notin> {SQ, DQ}"
proof -
  have "\<exists>ds. ds \<noteq> [] \<and> list_all is_digit ds \<and>
          (s = ds \<or> s = CHR ''-'' # ds \<or> s = CHR ''+'' # ds)"
    using assms by (cases s) (auto simp: Atoi_def Let_def split: if_splits)
  then obtain ds where ds: "ds \<noteq> []" "list_all is_digit ds"
      "s = ds \<or> s = CHR ''-'' # ds \<or> s = CHR ''+'' # ds"
    by blast
  have l: "is_digit (last ds)" using ds(1,2) by (simp add: list_all_iff)
  have h: "is_digit (hd ds)" using ds(1,2) by (cases ds) (simp_all)
  from ds(3) show ?thesis
    using ds(1) l h is_digit_not_quote by (elim disjE) auto
qed

subsection \<open>parseValue\<close>

lemma parseValue_wrapped:
  assumes "set q1 \<subseteq> {SQ, DQ}" and "set q2 \<subseteq> {SQ, DQ}"
  shows "parseValue pf (q1 @ s @ q2) = parseValue pf s"
  using Trim_wrapped[of q1 "[SQ, DQ]" q2 s] assms by (simp add: parseValue_def)

lemma parseValue_int: "Atoi s = Some i \<Longrightarrow> parseValue pf s = Inr (IntV i)"
  using Atoi_Some_shape[of s i] Trim_id[of s "[SQ, DQ]"] by (simp add: parseValue_def)

lemma parseValue_float:
  "Trim s [SQ, DQ] = s \<Longrightarrow> Atoi s = None \<Longrightarrow> pf s = Some x \<Longrightarrow> parseValue pf s = Inr (FloatV x)"
  by (simp add: parseValue_def)

subsection \<open>The regexp matcher\<close>

declare rmatch.simps [simp del]

lemma HasPrefix_iff: "HasPrefix s p \<longleftrightarrow> prefix p s"
  unfolding HasPrefix_def prefix_def by (metis append_eq_conv_conj)

lemma Contains_iff: "Contains s sub \<longleftrightarrow> (\<exists>a b. s = a @ sub @ b)"
proof (induction s)
  case Nil
  then show ?case by auto
next
  case (Cons x xs)
  show ?case
  proof
    assume "Contains (x # xs) sub"
    then consider "prefix sub (x # xs)" | "Contains xs sub" by (auto simp: HasPrefix_iff)
    then show "\<exists>a b. x # xs = a @ sub @ b"
    proof cases
      case 1
      then obtain b where "x # xs = sub @ b" by (auto simp: prefix_def)
      then have "x # xs = [] @ sub @ b" by simp
      then show ?thesis by blast
    next
      case 2
      with Cons.IH obtain a b where "xs = a @ sub @ b" by blast
      then have "x # xs = (x # a) @ sub @ b" by simp
      then show ?thesis by blast
    qed
  next
    assume "\<exists>a b. x # xs = a @ sub @ b"
    then obtain a b where ab: "x # xs = a @ sub @ b" by blast
    show "Contains (x # xs) sub"
    proof (cases a)
      case Nil
      with ab have "prefix sub (x # xs)" by (simp add: prefix_def)
      then show ?thesis by (simp add: HasPrefix_iff)
    next
      case (Cons y ys)
      with ab have "xs = ys @ sub @ b" by simp
      with Cons.IH have "Contains xs sub" by blast
      then show ?thesis by simp
    qed
  qed
qed

lemma lit_prefix_upper: "lit_prefix w s \<Longrightarrow> prefix (map to_upper w) (map to_upper s)"
  by (induction w s rule: lit_prefix.induct) auto

lemma lit_occurs_Contains:
  assumes "lit_prefix w s'" and "suffix s' s"
  shows "Contains (ToUpper s) (map to_upper w)"
proof -
  from assms(2) obtain pre where s: "s = pre @ s'" by (auto simp: suffix_def)
  from lit_prefix_upper[OF assms(1)] obtain rest where
    "map to_upper s' = map to_upper w @ rest" by (auto simp: prefix_def)
  then have "ToUpper s = map to_upper pre @ map to_upper w @ rest"
    by (simp add: ToUpper_def s)
  then show ?thesis unfolding Contains_iff by blast
qed

lemma reps_suffix: "x \<in> set (reps cl s) \<Longrightarrow> suffix x s \<and> length x < length s"
proof (induction s)
  case Nil
  then show ?case by simp
next
  case (Cons a s)
  then show ?case
    by (auto split: if_splits simp: suffix_Cons)
qed

lemma first_some_SomeD: "first_some f xs = Some m \<Longrightarrow> \<exists>x\<in>set xs. f x = Some m"
  by (induction xs) (auto split: option.splits)

lemma rmatch_Lit_SomeD:
  "rmatch (R (Lit w) # k) s c = Some m \<Longrightarrow> lit_prefix w s \<and> rmatch k (drop (length w) s) c = Some m"
  by (simp add: rmatch.simps split: if_splits)

lemma rmatch_Plus_SomeD:
  "rmatch (R (Plus cl) # k) s c = Some m \<Longrightarrow>
   \<exists>s'. suffix s' s \<and> length s' < length s \<and> rmatch k s' c = Some m"
  by (auto simp: rmatch.simps dest!: first_some_SomeD reps_suffix)

lemma rmatch_PlusLazy_SomeD:
  "rmatch (R (PlusLazy cl) # k) s c = Some m \<Longrightarrow>
   \<exists>s'. suffix s' s \<and> length s' < length s \<and> rmatch k s' c = Some m"
  by (auto simp: rmatch.simps dest!: first_some_SomeD reps_suffix)

lemma rmatch_Star_SomeD:
  "rmatch (R (Star cl) # k) s c = Some m \<Longrightarrow> \<exists>s'. suffix s' s \<and> rmatch k s' c = Some m"
  by (auto simp: rmatch.simps dest!: first_some_SomeD reps_suffix)

lemma rmatch_Alt_SomeD:
  "rmatch (R (Alt a b) # k) s c = Some m \<Longrightarrow>
   rmatch (R a # k) s c = Some m \<or> rmatch (R b # k) s c = Some m"
  by (auto simp: rmatch.simps split: option.splits)

lemma rmatch_Opt_SomeD:
  "rmatch (R (Opt a) # k) s c = Some m \<Longrightarrow> rmatch (R a # k) s c = Some m \<or> rmatch k s c = Some m"
  by (auto simp: rmatch.simps split: option.splits)

lemma rmatch_EndText_SomeD:
  "rmatch (R EndText # k) s c = Some m \<Longrightarrow> s = [] \<and> rmatch k [] c = Some m"
  by (auto simp: rmatch.simps split: if_splits)

lemmas rmatch_Cat = rmatch.simps(8)
lemmas rmatch_Group = rmatch.simps(6)
lemmas rmatch_Close = rmatch.simps(7)
lemmas rmatch_Nil = rmatch.simps(1)

lemma FindStringSubmatch_SomeD:
  "FindStringSubmatch r s = Some m \<Longrightarrow> \<exists>s'. suffix s' s \<and> match_here r s' = Some m"
proof (induction s)
  case Nil
  then show ?case by auto
next
  case (Cons x xs)
  show ?case
  proof (cases "match_here r (x # xs)")
    case None
    with Cons.prems have "FindStringSubmatch r xs = Some m" by simp
    from Cons.IH[OF this] show ?thesis by (auto simp: suffix_Cons)
  next
    case (Some c)
    with Cons.prems have "match_here r (x # xs) = Some m" by simp
    then show ?thesis by blast
  qed
qed

text \<open>The tail pattern (?:\s*;|$) sets no group.\<close>

lemma tail_keeps_caps:
  assumes "rmatch [R (Alt (Cat [Star Space, Lit '';'']) EndText)] s c = Some m"
  shows "m = c"
  using rmatch_Alt_SomeD[OF assms]
proof
  assume "rmatch [R (Cat [Star Space, Lit '';''])] s c = Some m"
  then have "rmatch [R (Star Space), R (Lit '';'')] s c = Some m" by (simp add: rmatch_Cat)
  then obtain s' where "rmatch [R (Lit '';'')] s' c = Some m" by (blast dest: rmatch_Star_SomeD)
  then have "rmatch [] (drop (length '';'') s') c = Some m" by (blast dest: rmatch_Lit_SomeD)
  then show ?thesis by (simp add: rmatch_Nil)
next
  assume "rmatch [R EndText] s c = Some m"
  then have "rmatch [] [] c = Some m" by (blast dest: rmatch_EndText_SomeD)
  then show ?thesis by (simp add: rmatch_Nil)
qed

lemma delete_where_group:
  assumes "match_here delete_re s = Some m" and "m 2 \<noteq> []"
  shows "\<exists>s'. suffix s' s \<and> lit_prefix ''WHERE'' s'"
proof -
  let ?tail = "Alt (Cat [Star Space, Lit '';'']) EndText"
  let ?inner = "Cat [Plus Space, Lit ''WHERE'', Plus Space, Group 2 (PlusLazy Dot)]"
  let ?c0 = "\<lambda>_::nat. []::string"
  from assms(1) have "rmatch [R (Lit ''DELETE''), R (Plus Space), R (Lit ''FROM''), R (Plus Space),
      R (Group 1 (Plus Word)), R (Opt ?inner), R ?tail] s ?c0 = Some m"
    by (simp add: match_here_def delete_re_def rmatch_Cat)
  then have "rmatch [R (Plus Space), R (Lit ''FROM''), R (Plus Space),
      R (Group 1 (Plus Word)), R (Opt ?inner), R ?tail] (drop (length ''DELETE'') s) ?c0 = Some m"
    by (blast dest: rmatch_Lit_SomeD)
  then obtain s1 where s1: "suffix s1 s" "rmatch [R (Lit ''FROM''), R (Plus Space),
      R (Group 1 (Plus Word)), R (Opt ?inner), R ?tail] s1 ?c0 = Some m"
    by (meson rmatch_Plus_SomeD suffix_drop suffix_order.trans)
  then have "rmatch [R (Plus Space), R (Group 1 (Plus Word)), R (Opt ?inner), R ?tail]
      (drop (length ''FROM'') s1) ?c0 = Some m"
    by (blast dest: rmatch_Lit_SomeD)
  then obtain s2 where s2: "suffix s2 s"
    "rmatch [R (Group 1 (Plus Word)), R (Opt ?inner), R ?tail] s2 ?c0 = Some m"
    using s1(1) by (meson rmatch_Plus_SomeD suffix_drop suffix_order.trans)
  then have "rmatch [R (Plus Word), Close 1 s2, R (Opt ?inner), R ?tail] s2 ?c0 = Some m"
    by (simp add: rmatch_Group)
  then obtain s3 where s3: "suffix s3 s" "rmatch [Close 1 s2, R (Opt ?inner), R ?tail] s3 ?c0 = Some m"
    using s2(1) by (meson rmatch_Plus_SomeD suffix_order.trans)
  define c1 where "c1 = ?c0(1 := take (length s2 - length s3) s2)"
  from s3(2) have o: "rmatch [R (Opt ?inner), R ?tail] s3 c1 = Some m"
    by (simp add: c1_def rmatch_Close)
  from rmatch_Opt_SomeD[OF o] show ?thesis
  proof
    assume "rmatch [R ?tail] s3 c1 = Some m"
    then have "m = c1" by (rule tail_keeps_caps)
    with assms(2) show ?thesis by (simp add: c1_def)
  next
    assume "rmatch [R ?inner, R ?tail] s3 c1 = Some m"
    then have "rmatch [R (Plus Space), R (Lit ''WHERE''), R (Plus Space), R (Group 2 (PlusLazy Dot)),
       R ?tail] s3 c1 = Some m" by (simp add: rmatch_Cat)
    then obtain s4 where s4: "suffix s4 s" "rmatch [R (Lit ''WHERE''), R (Plus Space),
       R (Group 2 (PlusLazy Dot)), R ?tail] s4 c1 = Some m"
      using s3(1) by (meson rmatch_Plus_SomeD suffix_order.trans)
    from rmatch_Lit_SomeD[OF s4(2)] s4(1) show ?thesis by blast
  qed
qed

section \<open>Facts about the translator\<close>

lemma parseCondition_column:
  assumes "parseCondition pf g s = Inr c"
  shows "Column c \<in> set (AllowedColumns g) \<and> Column c \<in> dom (wAllowedColumns (WhereClause g))"
proof -
  have op: "operator_condition pf g op m = Inr c \<Longrightarrow> ?thesis" for op m
    by (auto simp: operator_condition_def Let_def isColumnAllowed_def contains_def
        split: if_splits option.splits sum.splits)
  have bt: "between_condition pf g s = Inr c \<Longrightarrow> ?thesis"
    by (auto simp: between_condition_def Let_def isColumnAllowed_def contains_def
        split: if_splits option.splits sum.splits)
  have "condition_loop pf g ops s = Inr c \<Longrightarrow> ?thesis" for ops
    by (induction ops) (auto dest: op bt split: option.splits)
  then show ?thesis using assms by (simp add: parseCondition_def)
qed

lemma select_columns_frame:
  "select_columns g cols q = Inr q' \<Longrightarrow>
   \<exists>cs. q' = q\<lparr>Columns := Columns q @ cs\<rparr> \<and> set cs \<subseteq> set (AllowedColumns g)"
proof (induction cols arbitrary: q)
  case Nil
  then show ?case by (intro exI[of _ "[]"]) simp
next
  case (Cons col cols)
  let ?n = "Trim (TrimSpace col) [DQ, SQ, BQ]"
  from Cons.prems have ok: "?n \<in> set (AllowedColumns g)"
    and rest: "select_columns g cols (q\<lparr>Columns := Columns q @ [?n]\<rparr>) = Inr q'"
    by (auto simp: Let_def isColumnAllowed_def contains_def split: if_splits)
  from Cons.IH[OF rest] obtain cs where
    "q' = q\<lparr>Columns := Columns q @ [?n]\<rparr>\<lparr>Columns := Columns (q\<lparr>Columns := Columns q @ [?n]\<rparr>) @ cs\<rparr>"
    "set cs \<subseteq> set (AllowedColumns g)" by blast
  with ok show ?case by (intro exI[of _ "?n # cs"]) simp
qed

lemma parseSelect_frame:
  "parseSelect g sql q = Inr q' \<Longrightarrow>
   \<exists>cs. q' = q\<lparr>Columns := Columns q @ cs\<rparr> \<and> set cs \<subseteq> set (AllowedColumns g)"
  by (auto simp: parseSelect_def Let_def split: option.splits if_splits dest: select_columns_frame)

lemma parseFrom_frame:
  "parseFrom sql q = Inr q' \<Longrightarrow> \<exists>t. q' = q\<lparr>qTableName := t\<rparr>"
  by (auto simp: parseFrom_def split: option.splits)

lemma where_conditions_frame:
  "where_conditions pf g cs q = Inr q' \<Longrightarrow>
   \<exists>xs. q' = q\<lparr>Conditions := Conditions q @ xs\<rparr> \<and> length xs = length cs \<and>
     (\<forall>c\<in>set xs. Column c \<in> set (AllowedColumns g) \<and> Column c \<in> dom (wAllowedColumns (WhereClause g)))"
proof (induction cs arbitrary: q)
  case Nil
  then show ?case by (intro exI[of _ "[]"]) simp
next
  case (Cons s cs)
  from Cons.prems obtain c where c: "parseCondition pf g (TrimSpace s) = Inr c"
    and rest: "where_conditions pf g cs (q\<lparr>Conditions := Conditions q @ [c]\<rparr>) = Inr q'"
    by (auto split: sum.splits)
  from Cons.IH[OF rest] obtain xs where xs:
    "q' = q\<lparr>Conditions := Conditions q @ [c]\<rparr>\<lparr>Conditions := Conditions (q\<lparr>Conditions := Conditions q @ [c]\<rparr>) @ xs\<rparr>"
    "length xs = length cs"
    "\<forall>c\<in>set xs. Column c \<in> set (AllowedColumns g) \<and> Column c \<in> dom (wAllowedColumns (WhereClause g))"
    by blast
  with parseCondition_column[OF c] show ?case by (intro exI[of _ "c # xs"]) simp
qed

lemma parseWhere_frame:
  "parseWhere pf g sql q = Inr q' \<Longrightarrow>
   \<exists>xs. q' = q\<lparr>Conditions := Conditions q @ xs\<rparr> \<and>
     (\<forall>c\<in>set xs. Column c \<in> set (AllowedColumns g) \<and> Column c \<in> dom (wAllowedColumns (WhereClause g)))"
proof (cases "FindStringSubmatch where_re sql")
  case None
  assume "parseWhere pf g sql q = Inr q'"
  with None show ?thesis by (intro exI[of _ "[]"]) (simp add: parseWhere_def)
next
  case (Some m)
  assume "parseWhere pf g sql q = Inr q'"
  with Some show ?thesis
    using where_conditions_frame[of pf g "Split (TrimSpace (m 1)) '' AND ''" q q']
    by (auto simp: parseWhere_def)
qed

lemma order_fields_frame:
  "order_fields g fs q = Inr q' \<Longrightarrow>
   \<exists>xs. q' = q\<lparr>qOrderBy := qOrderBy q @ xs\<rparr> \<and>
     (\<forall>f\<in>set xs. fColumn f \<in> set (oAllowedColumns (OrderBy g)))"
proof (induction fs arbitrary: q)
  case Nil
  then show ?case by (intro exI[of _ "[]"]) simp
next
  case (Cons s fs)
  show ?case
  proof (cases "Fields (TrimSpace s)")
    case Nil
    with Cons.prems have "order_fields g fs q = Inr q'" by simp
    from Cons.IH[OF this] show ?thesis .
  next
    case (Cons column others)
    let ?o = "(case others of [] \<Rightarrow> ''ASC''
              | orderWord # _ \<Rightarrow> if ToUpper orderWord = ''DESC'' then ''DESC'' else ''ASC'')"
    let ?f = "\<lparr>fColumn = column, Order = ?o\<rparr>"
    from Cons.prems Cons have ok: "column \<in> set (oAllowedColumns (OrderBy g))"
      and rest: "order_fields g fs (q\<lparr>qOrderBy := qOrderBy q @ [?f]\<rparr>) = Inr q'"
      by (auto simp: Let_def contains_def split: if_splits)
    from Cons.IH[OF rest] obtain xs where
      "q' = q\<lparr>qOrderBy := qOrderBy q @ [?f]\<rparr>\<lparr>qOrderBy := qOrderBy (q\<lparr>qOrderBy := qOrderBy q @ [?f]\<rparr>) @ xs\<rparr>"
      "\<forall>f\<in>set xs. fColumn f \<in> set (oAllowedColumns (OrderBy g))" by blast
    with ok show ?thesis by (intro exI[of _ "?f # xs"]) simp
  qed
qed

lemma parseOrderBy_frame:
  "parseOrderBy g sql q = Inr q' \<Longrightarrow>
   \<exists>xs. q' = q\<lparr>qOrderBy := qOrderBy q @ xs\<rparr> \<and>
     (\<forall>f\<in>set xs. fColumn f \<in> set (oAllowedColumns (OrderBy g)))"
proof (cases "FindStringSubmatch orderby_re sql")
  case None
  assume "parseOrderBy g sql q = Inr q'"
  with None show ?thesis by (intro exI[of _ "[]"]) (simp add: parseOrderBy_def)
next
  case (Some m)
  assume "parseOrderBy g sql q = Inr q'"
  with Some show ?thesis
    using order_fields_frame[of g "Split (TrimSpace (m 1)) '',''" q q']
    by (auto simp: parseOrderBy_def)
qed

lemma parseLimit_frame:
  "parseLimit g sql q = Inr q' \<Longrightarrow> \<exists>l off. q' = q\<lparr>qLimit := l, Offset := off\<rparr>"
proof -
  have e: "q\<lparr>qLimit := l\<rparr> = q\<lparr>qLimit := l, Offset := Offset q\<rparr>" for l by simp
  assume "parseLimit g sql q = Inr q'"
  then show ?thesis
    by (auto simp: parseLimit_def Let_def split: option.splits if_splits intro: e)
qed

lemma parseSelectQuery_summary:
  assumes "parseSelectQuery pf g sql q0 = Inr q"
  shows "QueryType q = QueryType q0 \<and>
         (\<exists>cs. Columns q = Columns q0 @ cs \<and> set cs \<subseteq> set (AllowedColumns g)) \<and>
         (\<exists>xs. Conditions q = Conditions q0 @ xs \<and>
            (\<forall>c\<in>set xs. Column c \<in> set (AllowedColumns g) \<and> Column c \<in> dom (wAllowedColumns (WhereClause g)))) \<and>
         (\<exists>fs. qOrderBy q = qOrderBy q0 @ fs \<and> (\<forall>f\<in>set fs. fColumn f \<in> set (oAllowedColumns (OrderBy g))))"
proof -
  from assms obtain q1 q2 q3 q4 where
    s1: "parseSelect g sql q0 = Inr q1" and s2: "parseFrom sql q1 = Inr q2" and
    s3: "parseWhere pf g sql q2 = Inr q3" and s4: "parseOrderBy g sql q3 = Inr q4" and
    s5: "parseLimit g sql q4 = Inr q"
    by (auto simp: parseSelectQuery_def select_clauses_def split: sum.splits if_splits)
  from parseSelect_frame[OF s1] obtain cs where
    cs: "q1 = q0\<lparr>Columns := Columns q0 @ cs\<rparr>" "set cs \<subseteq> set (AllowedColumns g)" by blast
  from parseFrom_frame[OF s2] obtain t where t: "q2 = q1\<lparr>qTableName := t\<rparr>" by blast
  from parseWhere_frame[OF s3] obtain xs where
    xs: "q3 = q2\<lparr>Conditions := Conditions q2 @ xs\<rparr>"
      "\<forall>c\<in>set xs. Column c \<in> set (AllowedColumns g) \<and> Column c \<in> dom (wAllowedColumns (WhereClause g))"
    by blast
  from parseOrderBy_frame[OF s4] obtain fs where
    fs: "q4 = q3\<lparr>qOrderBy := qOrderBy q3 @ fs\<rparr>"
      "\<forall>f\<in>set fs. fColumn f \<in> set (oAllowedColumns (OrderBy g))" by blast
  from parseLimit_frame[OF s5] obtain l off where l: "q = q4\<lparr>qLimit := l, Offset := off\<rparr>" by blast
  show ?thesis using cs(2) xs(2) fs(2) by (simp add: l fs(1) xs(1) t cs(1))
qed

lemma insert_columns_frame:
  "insert_columns cols q = q\<lparr>Columns := Columns q @ map TrimSpace cols\<rparr>"
  by (induction cols arbitrary: q) simp_all

lemma insert_values_frame:
  "insert_values pf vs q = Inr q' \<Longrightarrow> \<exists>xs. q' = q\<lparr>Values := Values q @ xs\<rparr> \<and> length xs = length vs"
proof (induction vs arbitrary: q)
  case Nil
  then show ?case by (intro exI[of _ "[]"]) simp
next
  case (Cons v vs)
  from Cons.prems obtain x where
    rest: "insert_values pf vs (q\<lparr>Values := Values q @ [x]\<rparr>) = Inr q'"
    by (auto split: sum.splits)
  from Cons.IH[OF rest] obtain xs where
    "q' = q\<lparr>Values := Values q @ [x]\<rparr>\<lparr>Values := Values (q\<lparr>Values := Values q @ [x]\<rparr>) @ xs\<rparr>"
    "length xs = length vs" by blast
  then show ?case by (intro exI[of _ "x # xs"]) simp
qed

lemma parseInsertQuery_summary:
  assumes "parseInsertQuery pf g sql q0 = Inr q"
  shows "QueryType q = QueryType q0 \<and> Conditions q = Conditions q0 \<and> qOrderBy q = qOrderBy q0"
proof -
  from assms obtain m where m: "FindStringSubmatch insert_re sql = Some m"
    by (auto simp: parseInsertQuery_def split: option.splits)
  let ?q1 = "q0\<lparr>qTableName := TrimSpace (m 1)\<rparr>"
  let ?q2 = "insert_columns (Split (m 2) '','') ?q1"
  from assms m have v: "insert_values pf (Split (m 3) '','') ?q2 = Inr q"
    by (auto simp: parseInsertQuery_def Let_def split: if_splits)
  from insert_values_frame[OF v] obtain xs where xs: "q = ?q2\<lparr>Values := Values ?q2 @ xs\<rparr>" by blast
  show ?thesis by (subst xs, subst xs, subst xs, simp add: insert_columns_frame)
qed

lemma update_assignments_frame:
  "update_assignments pf as q = Inr q' \<Longrightarrow> \<exists>u. q' = q\<lparr>Updates := u\<rparr>"
proof (induction as arbitrary: q)
  case Nil
  then have "q' = q\<lparr>Updates := Updates q\<rparr>" by simp
  then show ?case by blast
next
  case (Cons a as)
  from Cons.prems obtain p0 v where
    rest: "update_assignments pf as (q\<lparr>Updates := (Updates q)(TrimSpace p0 \<mapsto> v)\<rparr>) = Inr q'"
    by (auto split: list.splits sum.splits)
  from Cons.IH[OF rest] obtain u where
    "q' = q\<lparr>Updates := (Updates q)(TrimSpace p0 \<mapsto> v)\<rparr>\<lparr>Updates := u\<rparr>" by blast
  then have "q' = q\<lparr>Updates := u\<rparr>" by simp
  then show ?case by blast
qed

lemma parseUpdateQuery_summary:
  assumes "parseUpdateQuery pf g sql q0 = Inr q"
  shows "QueryType q = QueryType q0 \<and> Columns q = Columns q0 \<and> qOrderBy q = qOrderBy q0 \<and>
         (\<exists>xs. Conditions q = Conditions q0 @ xs \<and> length xs \<le> 1 \<and>
            (\<forall>c\<in>set xs. Column c \<in> set (AllowedColumns g) \<and> Column c \<in> dom (wAllowedColumns (WhereClause g))))"
proof -
  from assms obtain m where m: "FindStringSubmatch update_re sql = Some m"
    by (auto simp: parseUpdateQuery_def split: option.splits)
  let ?q1 = "q0\<lparr>qTableName := TrimSpace (m 1)\<rparr>"
  from assms m obtain q2 where
    u: "update_assignments pf (Split (m 2) '','') ?q1 = Inr q2" and
    w: "(if m 3 \<noteq> [] then (case parseCondition pf g (m 3) of Inl err \<Rightarrow> Inl err
           | Inr condition \<Rightarrow> Inr (q2\<lparr>Conditions := Conditions q2 @ [condition]\<rparr>)) else Inr q2) = Inr q"
    by (auto simp: parseUpdateQuery_def Let_def split: if_splits sum.splits)
  from update_assignments_frame[OF u] obtain up where up: "q2 = ?q1\<lparr>Updates := up\<rparr>" by blast
  show ?thesis
  proof (cases "m 3 = []")
    case True
    with w have "q = q2" by simp
    then show ?thesis by (simp add: up)
  next
    case False
    with w obtain c where c: "parseCondition pf g (m 3) = Inr c"
      and q: "q = q2\<lparr>Conditions := Conditions q2 @ [c]\<rparr>"
      by (auto split: sum.splits)
    from parseCondition_column[OF c] show ?thesis
      by (simp add: q up)
  qed
qed

lemma parseDeleteQuery_summary:
  assumes "parseDeleteQuery pf g sql q0 = Inr q"
  shows "QueryType q = QueryType q0 \<and> Columns q = Columns q0 \<and> qOrderBy q = qOrderBy q0 \<and>
         (\<exists>c. Conditions q = Conditions q0 @ [c] \<and>
            Column c \<in> set (AllowedColumns g) \<and> Column c \<in> dom (wAllowedColumns (WhereClause g)))"
proof -
  from assms obtain m where m: "FindStringSubmatch delete_re sql = Some m"
    by (auto simp: parseDeleteQuery_def split: option.splits)
  let ?q1 = "q0\<lparr>qTableName := TrimSpace (m 1)\<rparr>"
  from assms m obtain c where c: "parseCondition pf g (m 2) = Inr c"
    and q: "q = ?q1\<lparr>Conditions := Conditions ?q1 @ [c]\<rparr>"
    by (auto simp: parseDeleteQuery_def Let_def split: if_splits sum.splits)
  from parseCondition_column[OF c] show ?thesis by (simp add: q)
qed

lemma ParseSQL_cases:
  assumes "ParseSQL pf g sql = Inr q"
  shows "(QueryType q = ''SELECT'' \<and> parseSelectQuery pf g (normalize sql) (new_query\<lparr>QueryType := ''SELECT''\<rparr>) = Inr q) \<or>
         (QueryType q = ''INSERT'' \<and> parseInsertQuery pf g (normalize sql) (new_query\<lparr>QueryType := ''INSERT''\<rparr>) = Inr q) \<or>
         (QueryType q = ''UPDATE'' \<and> parseUpdateQuery pf g (normalize sql) (new_query\<lparr>QueryType := ''UPDATE''\<rparr>) = Inr q) \<or>
         (QueryType q = ''DELETE'' \<and> parseDeleteQuery pf g (normalize sql) (new_query\<lparr>QueryType := ''DELETE''\<rparr>) = Inr q)"
  using assms
  by (auto simp: ParseSQL_def Let_def split: if_splits
      dest: parseSelectQuery_summary parseInsertQuery_summary parseUpdateQuery_summary
        parseDeleteQuery_summary)

subsection \<open>Keywords in the text\<close>

lemma Contains_snoc:
  assumes "Contains (s @ [c]) w" and "w \<noteq> []" and "last w \<noteq> c"
  shows "Contains s w"
proof -
  from assms(1) obtain a b where ab: "s @ [c] = a @ w @ b" unfolding Contains_iff by blast
  show ?thesis
  proof (cases b rule: rev_cases)
    case Nil
    with ab have "s @ [c] = (a @ butlast w) @ [last w]" using assms(2) by simp
    then have "c = last w" by (metis last_snoc)
    with assms(3) show ?thesis by simp
  next
    case (snoc b' x)
    with ab have "s @ [c] = (a @ w @ b') @ [x]" by simp
    then have "s = a @ w @ b'" by (metis butlast_snoc)
    then show ?thesis unfolding Contains_iff by blast
  qed
qed

lemma Contains_mono:
  assumes "Contains t w" and "s = a @ t @ b"
  shows "Contains s w"
proof -
  from assms(1) obtain x y where "t = x @ w @ y" unfolding Contains_iff by blast
  with assms(2) have "s = (a @ x) @ w @ (y @ b)" by simp
  then show ?thesis unfolding Contains_iff by blast
qed

lemma TrimSpace_sublist: "\<exists>a b. s = a @ TrimSpace s @ b"
proof -
  let ?d = "dropWhile is_space s"
  have 1: "s = takeWhile is_space s @ ?d" by simp
  have "rev ?d = takeWhile is_space (rev ?d) @ dropWhile is_space (rev ?d)" by simp
  then have "?d = rev (dropWhile is_space (rev ?d)) @ rev (takeWhile is_space (rev ?d))"
    by (metis rev_append rev_rev_ident)
  then have "?d = TrimSpace s @ rev (takeWhile is_space (rev ?d))"
    by (simp add: TrimSpace_def)
  with 1 have "s = takeWhile is_space s @ TrimSpace s @ rev (takeWhile is_space (rev ?d))"
    by simp
  then show ?thesis by blast
qed

lemma ToUpper_append: "ToUpper (a @ b) = ToUpper a @ ToUpper b"
  by (simp add: ToUpper_def)

lemma normalize_Contains:
  assumes "Contains (ToUpper (normalize sql)) w" and "w \<noteq> []" and "last w \<noteq> CHR '';''"
  shows "Contains (ToUpper sql) w"
proof -
  have t: "Contains (ToUpper (TrimSpace sql)) w"
  proof (cases "HasSuffix (TrimSpace sql) '';''")
    case True
    with assms(1) show ?thesis by (simp add: normalize_def)
  next
    case False
    with assms(1) have "Contains (ToUpper (TrimSpace sql) @ [CHR '';'']) w"
      by (simp add: normalize_def ToUpper_def to_upper_def lower_letters_def upper_letters_def)
    from Contains_snoc[OF this assms(2,3)] show ?thesis .
  qed
  obtain a b where "sql = a @ TrimSpace sql @ b" using TrimSpace_sublist by blast
  then have "ToUpper sql = ToUpper a @ ToUpper (TrimSpace sql) @ ToUpper b"
    by (metis ToUpper_append)
  from Contains_mono[OF t this] show ?thesis .
qed

lemma keyword_upper:
  "map to_upper ''WHERE'' = ''WHERE''" "map to_upper ''LIMIT'' = ''LIMIT''"
  by (simp_all add: to_upper_def lower_letters_def upper_letters_def)

lemma delete_group2_needs_where:
  assumes "FindStringSubmatch delete_re (normalize sql) = Some m" and "m 2 \<noteq> []"
  shows "Contains (ToUpper sql) ''WHERE''"
proof -
  from FindStringSubmatch_SomeD[OF assms(1)] obtain s' where
    s': "suffix s' (normalize sql)" "match_here delete_re s' = Some m" by blast
  from delete_where_group[OF s'(2) assms(2)] obtain s'' where
    s'': "suffix s'' s'" "lit_prefix ''WHERE'' s''" by blast
  from s''(1) s'(1) have "suffix s'' (normalize sql)" by (rule suffix_order.trans)
  from lit_occurs_Contains[OF s''(2) this] have "Contains (ToUpper (normalize sql)) ''WHERE''"
    unfolding keyword_upper .
  then show ?thesis by (rule normalize_Contains) simp_all
qed

lemma ParseSQL_delete:
  assumes "HasPrefix (ToUpper (normalize sql)) ''DELETE''"
  shows "ParseSQL pf g sql = parseDeleteQuery pf g (normalize sql) (new_query\<lparr>QueryType := ''DELETE''\<rparr>)"
proof -
  from assms obtain r where "ToUpper (normalize sql) = ''DELETE'' @ r"
    by (auto simp: HasPrefix_iff prefix_def)
  then show ?thesis
    by (simp add: ParseSQL_def Let_def HasPrefix_def)
qed







lemma map_sum_InrD: "map_sum f h x = Inr y \<Longrightarrow> \<exists>q. x = Inr q \<and> h q = y"
  by (cases x) auto

lemma map_sum_InlD: "map_sum f h x = Inl y \<Longrightarrow> \<exists>e. x = Inl e \<and> f e = y"
  by (cases x) auto



lemma parseUpdateQuery_conditions:
  assumes "parseUpdateQuery pf g sql q0 = Inr q" and "Conditions q0 = []"
  shows "\<exists>m. FindStringSubmatch update_re sql = Some m \<and>
           (m 3 = [] \<and> Conditions q = [] \<or>
            (\<exists>c. parseCondition pf g (m 3) = Inr c \<and> Conditions q = [c]))"
proof -
  from assms(1) obtain m where m: "FindStringSubmatch update_re sql = Some m"
    by (auto simp: parseUpdateQuery_def split: option.splits)
  let ?q1 = "q0\<lparr>qTableName := TrimSpace (m 1)\<rparr>"
  from assms(1) m obtain q2 where
    u: "update_assignments pf (Split (m 2) '','') ?q1 = Inr q2" and
    w: "(if m 3 \<noteq> [] then (case parseCondition pf g (m 3) of Inl err \<Rightarrow> Inl err
           | Inr condition \<Rightarrow> Inr (q2\<lparr>Conditions := Conditions q2 @ [condition]\<rparr>)) else Inr q2) = Inr q"
    by (auto simp: parseUpdateQuery_def Let_def split: if_splits sum.splits)
  from update_assignments_frame[OF u] obtain up where up: "q2 = ?q1\<lparr>Updates := up\<rparr>" by blast
  show ?thesis
  proof (cases "m 3 = []")
    case True
    with w have "q = q2" by simp
    with True m assms(2) show ?thesis by (simp add: up)
  next
    case False
    with w obtain c where c: "parseCondition pf g (m 3) = Inr c"
      and q: "q = q2\<lparr>Conditions := Conditions q2 @ [c]\<rparr>"
      by (auto split: sum.splits)
    with m assms(2) show ?thesis by (simp add: up)
  qed
qed

section \<open>Facts about the executor\<close>

lemma Replace1_after_prefix:
  assumes "old \<noteq> []" and "hd old \<notin> set b"
  shows "Replace1 (b @ p) old new = b @ Replace1 p old new"
  using assms(2)
proof (induction b)
  case Nil
  then show ?case by simp
next
  case (Cons x b)
  from assms(1) obtain y ys where old: "old = y # ys" by (cases old) auto
  with Cons.prems have "x \<noteq> y" by auto
  then have "\<not> HasPrefix (x # b @ p) old" by (auto simp: HasPrefix_def old)
  with Cons show ?case by simp
qed

lemma mutation_scan_find:
  "mutation_scan ff capability baseURL cs =
     (case find (\<lambda>c. Column c = ''id'' \<and> Operator c = ''='') cs of
        None \<Rightarrow> Inl ErrMutationNeedsId
      | Some c \<Rightarrow>
          if Contains (Path capability) ''{id}''
          then Inr (Replace1 baseURL ''{id}'' (fmt_value ff (Value c)))
          else Inr (baseURL @ ''/'' @ fmt_value ff (Value c)))"
  by (induction cs) simp_all

section \<open>Matching the patterns on texts of a given shape\<close>

lemma reps_Nil: "s = [] \<or> \<not> in_class cl (hd s) \<Longrightarrow> reps cl s = []"
  by (cases s) auto

lemma reps_run:
  assumes "u \<noteq> []" and "list_all (in_class cl) u" and "rest = [] \<or> \<not> in_class cl (hd rest)"
  shows "\<exists>pre. reps cl (u @ rest) = pre @ [rest]"
  using assms(1,2)
proof (induction u)
  case Nil
  then show ?case by simp
next
  case (Cons x u)
  show ?case
  proof (cases "u = []")
    case True
    with Cons.prems assms(3) have "reps cl ((x # u) @ rest) = [] @ [rest]"
      by (simp add: reps_Nil)
    then show ?thesis by blast
  next
    case False
    with Cons obtain pre where "reps cl (u @ rest) = pre @ [rest]" by auto
    with Cons.prems have "reps cl ((x # u) @ rest) = ((u @ rest) # pre) @ [rest]" by simp
    then show ?thesis by blast
  qed
qed

lemma first_some_hd: "f x = Some r \<Longrightarrow> first_some f (x # xs) = Some r"
  by simp

lemma greedy_run:
  assumes "u \<noteq> []" and "list_all (in_class cl) u" and "rest = [] \<or> \<not> in_class cl (hd rest)"
    and "f rest = Some r"
  shows "first_some f (rev (reps cl (u @ rest))) = Some r"
proof -
  from reps_run[OF assms(1-3)] obtain pre where "reps cl (u @ rest) = pre @ [rest]" by blast
  then have "rev (reps cl (u @ rest)) = rest # rev pre" by simp
  with assms(4) show ?thesis by simp
qed

lemma keyword_needs_space:
  assumes "\<forall>c\<in>set s. \<not> is_space_re c"
  shows "FindStringSubmatch (Cat (Lit w # Plus Space # rs)) s = None"
  using assms
proof (induction s)
  case Nil
  then show ?case by (simp add: match_here_def rmatch.simps reps_Nil)
next
  case (Cons x s)
  have "drop (length w) (x # s) = [] \<or> \<not> in_class Space (hd (drop (length w) (x # s)))"
  proof (cases "drop (length w) (x # s) = []")
    case True
    then show ?thesis by blast
  next
    case False
    then have "hd (drop (length w) (x # s)) \<in> set (x # s)"
      by (metis hd_in_set in_set_dropD)
    with Cons.prems show ?thesis by auto
  qed
  then have "reps Space (drop (length w) (x # s)) = []" by (rule reps_Nil)
  then have "match_here (Cat (Lit w # Plus Space # rs)) (x # s) = None"
    by (simp add: match_here_def rmatch.simps)
  with Cons show ?case by simp
qed

lemma word_not_space: "is_word c \<Longrightarrow> \<not> is_space_re c \<and> \<not> is_space c \<and> c \<noteq> CHR '';''"
  by (auto simp: is_word_def is_space_re_def is_space_def lower_letters_def upper_letters_def)

lemma TrimSpace_id:
  assumes "s \<noteq> []" and "\<not> is_space (hd s)" and "\<not> is_space (last s)"
  shows "TrimSpace s = s"
proof -
  have a: "dropWhile is_space s = s" using assms(1,2) by (cases s) auto
  have b: "dropWhile is_space (rev s) = rev s"
    using assms(1,3) by (cases "rev s") (auto simp: last_rev[symmetric] hd_rev)
  show ?thesis by (simp add: TrimSpace_def a b)
qed

lemma first_some_single [simp]: "first_some f [x] = f x"
  by (cases "f x") simp_all

lemma HasSuffix_single: "HasSuffix s [c] \<longleftrightarrow> s \<noteq> [] \<and> last s = c"
proof (cases s rule: rev_cases)
  case Nil
  then show ?thesis by (simp add: HasSuffix_def)
next
  case (snoc ys y)
  then show ?thesis by (auto simp: HasSuffix_def)
qed

lemma normalize_plain:
  assumes "s \<noteq> []" and "\<not> is_space (hd s)" and "\<not> is_space (last s)" and "last s \<noteq> CHR '';''"
  shows "normalize s = s @ '';''"
  using assms by (simp add: normalize_def TrimSpace_id HasSuffix_single)

lemma from_match:
  assumes "t \<noteq> []" and "list_all is_word t" and "rest = [] \<or> \<not> is_word (hd rest)"
  shows "match_here from_re (''FROM '' @ t @ rest) = Some ((\<lambda>_. [])(1 := t))"
proof -
  let ?c0 = "\<lambda>_::nat. []::string"
  have w: "is_word (hd t)" using assms(1,2) by (cases t) auto
  have 1: "reps Space (t @ rest) = []"
    using assms(1) w by (intro reps_Nil) (simp add: word_not_space)
  have 2: "first_some (\<lambda>s'. rmatch [Close 1 (t @ rest)] s' ?c0) (rev (reps Word (t @ rest)))
      = Some (?c0(1 := t))"
    using assms by (intro greedy_run) (simp_all add: rmatch.simps list_all_iff)
  have "rmatch [R (Lit ''FROM''), R (Plus Space), R (Group 1 (Plus Word))] (''FROM '' @ t @ rest) ?c0
      = rmatch [R (Plus Space), R (Group 1 (Plus Word))] ('' '' @ t @ rest) ?c0"
    by (simp add: rmatch.simps(2) to_upper_def lower_letters_def upper_letters_def)
  also have "\<dots> = rmatch [R (Group 1 (Plus Word))] (t @ rest) ?c0"
    by (simp add: rmatch.simps(3) 1 is_space_re_def split: option.splits)
  also have "\<dots> = Some (?c0(1 := t))"
    unfolding rmatch.simps(6) rmatch.simps(3) by (rule 2)
  finally show ?thesis
    by (simp add: match_here_def from_re_def rmatch.simps(8))
qed

lemma lit_mismatch: "\<not> lit_prefix w s \<Longrightarrow> match_here (Cat (Lit w # rs)) s = None"
  by (simp add: match_here_def rmatch.simps)

lemma select_star_match:
  "match_here select_re (''SELECT * FROM'' @ rest) = Some ((\<lambda>_. [])(1 := ''*''))"
  by (simp add: match_here_def select_re_def rmatch.simps to_upper_def lower_letters_def
      upper_letters_def is_space_re_def)




section \<open>The condition parser on a BETWEEN condition\<close>










text \<open>
  Inside a statement the condition text reaches parseCondition whole only for UPDATE and
  DELETE. parseWhere, the SELECT path, first cuts the WHERE text at every \<^verbatim>\<open>" AND "\<close>, so
  the AND of a BETWEEN ends the first piece.
\<close>

lemma select_where_cuts_between:
  "map_sum id query_view (ParseSQL no_float (example_grammar ''users'')
      ''SELECT * FROM users WHERE age BETWEEN 1 AND 5'')
     = Inl (ErrUnsupportedCondition ''age BETWEEN 1'')"
  by code_simp

lemma delete_where_keeps_between:
  "map_sum id query_view (ParseSQL no_float (example_grammar ''users'')
      ''DELETE FROM users WHERE age BETWEEN 1 AND 5'')
     = Inr (''DELETE'', ''users'', [], [], [(''age'', ''>='', IntV 1)], [], 0, 0)"
  by code_simp

section \<open>Where the value texts go\<close>

lemma Trim_idem: "Trim (Trim s cs) cs = Trim s cs"
proof -
  let ?P = "\<lambda>c. c \<in> set cs"
  define a where "a = dropWhile ?P s"
  define b where "b = rev (dropWhile ?P (rev a))"
  define e where "e = rev (takeWhile ?P (rev a))"
  have tail_end: "dropWhile ?P (rev b) = rev b" by (simp add: b_def dropWhile_idem)
  have "b @ e = rev (takeWhile ?P (rev a) @ dropWhile ?P (rev a))"
    by (simp only: b_def e_def rev_append)
  also have "\<dots> = a" by (simp only: takeWhile_dropWhile_id rev_rev_ident)
  finally have split: "b @ e = a" .
  have front: "dropWhile ?P b = b"
  proof (cases b)
    case Nil
    then show ?thesis by simp
  next
    case (Cons x xs)
    with split have "hd a = x" "a \<noteq> []" by auto
    moreover from \<open>a \<noteq> []\<close> have "\<not> ?P (hd a)" unfolding a_def by (rule hd_dropWhile)
    ultimately have "\<not> ?P x" by simp
    with Cons show ?thesis by simp
  qed
  have "Trim s cs = b" by (simp only: Trim_def a_def b_def)
  moreover have "Trim b cs = b" by (simp only: Trim_def front tail_end rev_rev_ident)
  ultimately show ?thesis by simp
qed

lemma parseValue_StrV:
  assumes "parseValue pf t = Inr (StrV s)"
  shows "Atoi s = None \<and> pf s = None \<and> Trim s [SQ, DQ] = s"
proof -
  from assms have "s = Trim t [SQ, DQ]" "Atoi (Trim t [SQ, DQ]) = None" "pf (Trim t [SQ, DQ]) = None"
    by (auto simp: parseValue_def Let_def split: option.splits)
  then show ?thesis by (simp add: Trim_idem)
qed

lemma operator_condition_value:
  "operator_condition pf g op m = Inr c \<Longrightarrow> parseValue pf (TrimSpace (m 2)) = Inr (Value c)"
  by (auto simp: operator_condition_def Let_def split: if_splits option.splits sum.splits)

lemma between_condition_value:
  "FindStringSubmatch between_re s = Some m \<Longrightarrow> between_condition pf g s = Inr c \<Longrightarrow>
   parseValue pf (TrimSpace (m 2)) = Inr (Value c)"
  by (auto simp: between_condition_def Let_def split: if_splits option.splits sum.splits)

lemma parseCondition_value:
  assumes "parseCondition pf g s = Inr c"
  shows "\<exists>t. parseValue pf t = Inr (Value c)"
proof -
  have bt: ?thesis if b: "between_condition pf g s = Inr c"
  proof (cases "FindStringSubmatch between_re s")
    case None
    with b show ?thesis by (simp add: between_condition_def)
  next
    case (Some m)
    from between_condition_value[OF Some b] show ?thesis by blast
  qed
  have "condition_loop pf g ops s = Inr c \<Longrightarrow> ?thesis" for ops
    by (induction ops) (auto dest: operator_condition_value bt split: option.splits)
  then show ?thesis using assms by (simp add: parseCondition_def)
qed

lemma where_conditions_values:
  "where_conditions pf g cs q = Inr q' \<Longrightarrow>
   \<exists>xs. q' = q\<lparr>Conditions := Conditions q @ xs\<rparr> \<and>
     (\<forall>c\<in>set xs. \<exists>t. parseValue pf t = Inr (Value c))"
proof (induction cs arbitrary: q)
  case Nil
  then show ?case by (intro exI[of _ "[]"]) simp
next
  case (Cons s cs)
  from Cons.prems obtain c where c: "parseCondition pf g (TrimSpace s) = Inr c"
    and rest: "where_conditions pf g cs (q\<lparr>Conditions := Conditions q @ [c]\<rparr>) = Inr q'"
    by (auto split: sum.splits)
  from Cons.IH[OF rest] obtain xs where xs:
    "q' = q\<lparr>Conditions := Conditions q @ [c]\<rparr>\<lparr>Conditions := Conditions (q\<lparr>Conditions := Conditions q @ [c]\<rparr>) @ xs\<rparr>"
    "\<forall>c\<in>set xs. \<exists>t. parseValue pf t = Inr (Value c)"
    by blast
  with parseCondition_value[OF c] show ?case by (intro exI[of _ "c # xs"]) simp
qed

lemma parseWhere_values:
  "parseWhere pf g sql q = Inr q' \<Longrightarrow>
   \<exists>xs. q' = q\<lparr>Conditions := Conditions q @ xs\<rparr> \<and>
     (\<forall>c\<in>set xs. \<exists>t. parseValue pf t = Inr (Value c))"
proof (cases "FindStringSubmatch where_re sql")
  case None
  assume "parseWhere pf g sql q = Inr q'"
  with None show ?thesis by (intro exI[of _ "[]"]) (simp add: parseWhere_def)
next
  case (Some m)
  assume "parseWhere pf g sql q = Inr q'"
  with Some show ?thesis
    using where_conditions_values[of pf g "Split (TrimSpace (m 1)) '' AND ''" q q']
    by (auto simp: parseWhere_def)
qed

lemma parseSelectQuery_values:
  assumes "parseSelectQuery pf g sql q0 = Inr q"
  shows "Values q = Values q0 \<and> Updates q = Updates q0 \<and>
         (\<exists>xs. Conditions q = Conditions q0 @ xs \<and>
            (\<forall>c\<in>set xs. \<exists>t. parseValue pf t = Inr (Value c)))"
proof -
  from assms obtain q1 q2 q3 q4 where
    s1: "parseSelect g sql q0 = Inr q1" and s2: "parseFrom sql q1 = Inr q2" and
    s3: "parseWhere pf g sql q2 = Inr q3" and s4: "parseOrderBy g sql q3 = Inr q4" and
    s5: "parseLimit g sql q4 = Inr q"
    by (auto simp: parseSelectQuery_def select_clauses_def split: sum.splits if_splits)
  from parseSelect_frame[OF s1] obtain cs where
    cs: "q1 = q0\<lparr>Columns := Columns q0 @ cs\<rparr>" by blast
  from parseFrom_frame[OF s2] obtain t where t: "q2 = q1\<lparr>qTableName := t\<rparr>" by blast
  from parseWhere_values[OF s3] obtain xs where
    xs: "q3 = q2\<lparr>Conditions := Conditions q2 @ xs\<rparr>"
      "\<forall>c\<in>set xs. \<exists>t. parseValue pf t = Inr (Value c)" by blast
  from parseOrderBy_frame[OF s4] obtain fs where
    fs: "q4 = q3\<lparr>qOrderBy := qOrderBy q3 @ fs\<rparr>" by blast
  from parseLimit_frame[OF s5] obtain l off where l: "q = q4\<lparr>qLimit := l, Offset := off\<rparr>" by blast
  show ?thesis using xs(2) by (simp add: l fs xs(1) t cs)
qed

lemma insert_values_values:
  "insert_values pf vs q = Inr q' \<Longrightarrow>
   \<exists>xs. q' = q\<lparr>Values := Values q @ xs\<rparr> \<and> (\<forall>x\<in>set xs. \<exists>t. parseValue pf t = Inr x)"
proof (induction vs arbitrary: q)
  case Nil
  then show ?case by (intro exI[of _ "[]"]) simp
next
  case (Cons v vs)
  from Cons.prems obtain x where x: "parseValue pf (TrimSpace v) = Inr x" and
    rest: "insert_values pf vs (q\<lparr>Values := Values q @ [x]\<rparr>) = Inr q'"
    by (auto split: sum.splits)
  from Cons.IH[OF rest] obtain xs where
    "q' = q\<lparr>Values := Values q @ [x]\<rparr>\<lparr>Values := Values (q\<lparr>Values := Values q @ [x]\<rparr>) @ xs\<rparr>"
    "\<forall>x\<in>set xs. \<exists>t. parseValue pf t = Inr x" by blast
  with x show ?case by (intro exI[of _ "x # xs"]) auto
qed

lemma parseInsertQuery_values:
  assumes "parseInsertQuery pf g sql q0 = Inr q"
  shows "Conditions q = Conditions q0 \<and> Updates q = Updates q0 \<and>
         (\<exists>xs. Values q = Values q0 @ xs \<and> (\<forall>x\<in>set xs. \<exists>t. parseValue pf t = Inr x))"
proof -
  from assms obtain m where m: "FindStringSubmatch insert_re sql = Some m"
    by (auto simp: parseInsertQuery_def split: option.splits)
  let ?q1 = "q0\<lparr>qTableName := TrimSpace (m 1)\<rparr>"
  let ?q2 = "insert_columns (Split (m 2) '','') ?q1"
  from assms m have v: "insert_values pf (Split (m 3) '','') ?q2 = Inr q"
    by (auto simp: parseInsertQuery_def Let_def split: if_splits)
  from insert_values_values[OF v] obtain xs where xs: "q = ?q2\<lparr>Values := Values ?q2 @ xs\<rparr>"
    "\<forall>x\<in>set xs. \<exists>t. parseValue pf t = Inr x" by blast
  have "Conditions q = Conditions q0" "Updates q = Updates q0" "Values q = Values q0 @ xs"
    by (subst xs(1), simp add: insert_columns_frame)+
  with xs(2) show ?thesis by blast
qed

lemma update_assignments_values:
  "update_assignments pf as q = Inr q' \<Longrightarrow>
   \<exists>u. q' = q\<lparr>Updates := u\<rparr> \<and>
     (\<forall>x\<in>ran u. x \<in> ran (Updates q) \<or> (\<exists>t. parseValue pf t = Inr x))"
proof (induction as arbitrary: q)
  case Nil
  then have "q' = q\<lparr>Updates := Updates q\<rparr>" by simp
  then show ?case by blast
next
  case (Cons a as)
  from Cons.prems obtain p0 p1 v where v: "parseValue pf (TrimSpace p1) = Inr v" and
    rest: "update_assignments pf as (q\<lparr>Updates := (Updates q)(TrimSpace p0 \<mapsto> v)\<rparr>) = Inr q'"
    by (auto split: list.splits sum.splits)
  from Cons.IH[OF rest] obtain u where u:
    "q' = q\<lparr>Updates := (Updates q)(TrimSpace p0 \<mapsto> v)\<rparr>\<lparr>Updates := u\<rparr>"
    "\<forall>x\<in>ran u. x \<in> ran (Updates (q\<lparr>Updates := (Updates q)(TrimSpace p0 \<mapsto> v)\<rparr>)) \<or>
       (\<exists>t. parseValue pf t = Inr x)"
    by blast
  from u(2) have u2:
    "\<forall>x\<in>ran u. x \<in> ran ((Updates q)(TrimSpace p0 \<mapsto> v)) \<or> (\<exists>t. parseValue pf t = Inr x)"
    by simp
  have "x \<in> ran ((Updates q)(TrimSpace p0 \<mapsto> v)) \<Longrightarrow> x = v \<or> x \<in> ran (Updates q)" for x
    by (auto simp: ran_def split: if_splits)
  with u2 v have "\<forall>x\<in>ran u. x \<in> ran (Updates q) \<or> (\<exists>t. parseValue pf t = Inr x)"
    by blast
  moreover from u(1) have "q' = q\<lparr>Updates := u\<rparr>" by simp
  ultimately show ?case by blast
qed

lemma parseUpdateQuery_values:
  assumes "parseUpdateQuery pf g sql q0 = Inr q"
  shows "Values q = Values q0 \<and>
         (\<forall>x\<in>ran (Updates q). x \<in> ran (Updates q0) \<or> (\<exists>t. parseValue pf t = Inr x)) \<and>
         (\<exists>xs. Conditions q = Conditions q0 @ xs \<and>
            (\<forall>c\<in>set xs. \<exists>t. parseValue pf t = Inr (Value c)))"
proof -
  from assms obtain m where m: "FindStringSubmatch update_re sql = Some m"
    by (auto simp: parseUpdateQuery_def split: option.splits)
  let ?q1 = "q0\<lparr>qTableName := TrimSpace (m 1)\<rparr>"
  from assms m obtain q2 where
    u: "update_assignments pf (Split (m 2) '','') ?q1 = Inr q2" and
    w: "(if m 3 \<noteq> [] then (case parseCondition pf g (m 3) of Inl err \<Rightarrow> Inl err
           | Inr condition \<Rightarrow> Inr (q2\<lparr>Conditions := Conditions q2 @ [condition]\<rparr>)) else Inr q2) = Inr q"
    by (auto simp: parseUpdateQuery_def Let_def split: if_splits sum.splits)
  from update_assignments_values[OF u] obtain up where up: "q2 = ?q1\<lparr>Updates := up\<rparr>"
    "\<forall>x\<in>ran up. x \<in> ran (Updates ?q1) \<or> (\<exists>t. parseValue pf t = Inr x)" by blast
  show ?thesis
  proof (cases "m 3 = []")
    case True
    with w have "q = q2" by simp
    then show ?thesis using up(2) by (simp add: up(1))
  next
    case False
    with w obtain c where c: "parseCondition pf g (m 3) = Inr c"
      and q: "q = q2\<lparr>Conditions := Conditions q2 @ [c]\<rparr>"
      by (auto split: sum.splits)
    from parseCondition_value[OF c] up(2) show ?thesis
      by (simp add: q up(1))
  qed
qed

lemma parseDeleteQuery_values:
  assumes "parseDeleteQuery pf g sql q0 = Inr q"
  shows "Values q = Values q0 \<and> Updates q = Updates q0 \<and>
         (\<exists>c. Conditions q = Conditions q0 @ [c] \<and> (\<exists>t. parseValue pf t = Inr (Value c)))"
proof -
  from assms obtain m where m: "FindStringSubmatch delete_re sql = Some m"
    by (auto simp: parseDeleteQuery_def split: option.splits)
  let ?q1 = "q0\<lparr>qTableName := TrimSpace (m 1)\<rparr>"
  from assms m obtain c where c: "parseCondition pf g (m 2) = Inr c"
    and q: "q = ?q1\<lparr>Conditions := Conditions ?q1 @ [c]\<rparr>"
    by (auto simp: parseDeleteQuery_def Let_def split: if_splits sum.splits)
  from parseCondition_value[OF c] show ?thesis by (simp add: q)
qed

lemma ParseSQL_values:
  assumes "ParseSQL pf g sql = Inr q"
  shows "(\<forall>c\<in>set (Conditions q). \<exists>t. parseValue pf t = Inr (Value c)) \<and>
         (\<forall>x\<in>set (Values q). \<exists>t. parseValue pf t = Inr x) \<and>
         (\<forall>x\<in>ran (Updates q). \<exists>t. parseValue pf t = Inr x)"
  using ParseSQL_cases[OF assms]
proof (elim disjE conjE)
  assume "parseSelectQuery pf g (normalize sql) (new_query\<lparr>QueryType := ''SELECT''\<rparr>) = Inr q"
  from parseSelectQuery_values[OF this] show ?thesis
    by (auto simp: new_query_def)
next
  assume "parseInsertQuery pf g (normalize sql) (new_query\<lparr>QueryType := ''INSERT''\<rparr>) = Inr q"
  from parseInsertQuery_values[OF this] show ?thesis
    by (auto simp: new_query_def)
next
  assume "parseUpdateQuery pf g (normalize sql) (new_query\<lparr>QueryType := ''UPDATE''\<rparr>) = Inr q"
  from parseUpdateQuery_values[OF this] show ?thesis
    by (auto simp: new_query_def)
next
  assume "parseDeleteQuery pf g (normalize sql) (new_query\<lparr>QueryType := ''DELETE''\<rparr>) = Inr q"
  from parseDeleteQuery_values[OF this] show ?thesis
    by (auto simp: new_query_def)
qed

section \<open>What parseLimit reads\<close>


section \<open>The claims\<close>

text \<open>
  C1 (amended). Whenever ParseSQL returns a query, every condition column is in the grammar's
  projectable list and in its filter map, every ORDER BY column is in its orderable list,
  and the projected columns of a SELECT are in its projectable list. The claim as stated
  also covers the column list of an INSERT and the assignment keys of an UPDATE; these are
  copied from the text and never compared with the grammar, as the counterexample shows.
\<close>

theorem ParseSQL_columns:
  assumes "ParseSQL pf g sql = Inr q"
  shows "(\<forall>c\<in>set (Conditions q). Column c \<in> set (AllowedColumns g) \<and>
            Column c \<in> dom (wAllowedColumns (WhereClause g))) \<and>
         (\<forall>f\<in>set (qOrderBy q). fColumn f \<in> set (oAllowedColumns (OrderBy g))) \<and>
         (QueryType q = ''SELECT'' \<longrightarrow> set (Columns q) \<subseteq> set (AllowedColumns g))"
  using ParseSQL_cases[OF assms]
proof (elim disjE conjE)
  assume "QueryType q = ''SELECT''"
    and "parseSelectQuery pf g (normalize sql) (new_query\<lparr>QueryType := ''SELECT''\<rparr>) = Inr q"
  from parseSelectQuery_summary[OF this(2)] show ?thesis
    by (auto simp: new_query_def)
next
  assume "QueryType q = ''INSERT''"
    and "parseInsertQuery pf g (normalize sql) (new_query\<lparr>QueryType := ''INSERT''\<rparr>) = Inr q"
  from this(1) parseInsertQuery_summary[OF this(2)] show ?thesis
    by (auto simp: new_query_def)
next
  assume "QueryType q = ''UPDATE''"
    and "parseUpdateQuery pf g (normalize sql) (new_query\<lparr>QueryType := ''UPDATE''\<rparr>) = Inr q"
  from this(1) parseUpdateQuery_summary[OF this(2)] show ?thesis
    by (auto simp: new_query_def)
next
  assume "QueryType q = ''DELETE''"
    and "parseDeleteQuery pf g (normalize sql) (new_query\<lparr>QueryType := ''DELETE''\<rparr>) = Inr q"
  from this(1) parseDeleteQuery_summary[OF this(2)] show ?thesis
    by (auto simp: new_query_def)
qed

theorem ParseSQL_columns_witness:
  "\<exists>q. ParseSQL no_float (example_grammar ''findByStatus'')
          ''SELECT name FROM findByStatus WHERE status = 1 ORDER BY name DESC LIMIT 5'' = Inr q \<and>
        query_view q = (''SELECT'', ''findByStatus'', [''name''], [],
                        [(''status'', ''='', IntV 1)], [(''name'', ''DESC'')], 5, 0) \<and>
        set (map Column (Conditions q)) \<subseteq> set (AllowedColumns (example_grammar ''findByStatus'')) \<and>
        set (map Column (Conditions q))
          \<subseteq> dom (wAllowedColumns (WhereClause (example_grammar ''findByStatus''))) \<and>
        set (map fColumn (qOrderBy q))
          \<subseteq> set (oAllowedColumns (OrderBy (example_grammar ''findByStatus''))) \<and>
        set (Columns q) \<subseteq> set (AllowedColumns (example_grammar ''findByStatus''))"
proof -
  let ?g = "example_grammar ''findByStatus''"
  let ?sql = "''SELECT name FROM findByStatus WHERE status = 1 ORDER BY name DESC LIMIT 5''"
  have "map_sum id query_view (ParseSQL no_float ?g ?sql)
      = Inr (''SELECT'', ''findByStatus'', [''name''], [],
             [(''status'', ''='', IntV 1)], [(''name'', ''DESC'')], 5, 0)"
    by code_simp
  then obtain q where q: "ParseSQL no_float ?g ?sql = Inr q"
    "query_view q = (''SELECT'', ''findByStatus'', [''name''], [],
                     [(''status'', ''='', IntV 1)], [(''name'', ''DESC'')], 5, 0)"
    by (blast dest: map_sum_InrD)
  have k: "QueryType q = ''SELECT''" using q(2) by (simp add: query_view_def)
  from ParseSQL_columns[OF q(1)] k
  have "set (map Column (Conditions q)) \<subseteq> set (AllowedColumns ?g) \<and>
        set (map Column (Conditions q)) \<subseteq> dom (wAllowedColumns (WhereClause ?g)) \<and>
        set (map fColumn (qOrderBy q)) \<subseteq> set (oAllowedColumns (OrderBy ?g)) \<and>
        set (Columns q) \<subseteq> set (AllowedColumns ?g)"
    by auto
  with q show ?thesis by blast
qed

theorem insert_update_columns_unchecked_counterexample:
  "map_sum id query_view (ParseSQL no_float (example_grammar ''pet_post'')
      ''INSERT INTO pet (bogus) VALUES (1)'')
     = Inr (''INSERT'', ''pet'', [''bogus''], [IntV 1], [], [], 0, 0) \<and>
   map_sum id (assigned ''bogus'') (ParseSQL no_float (example_grammar ''pet_put'')
      ''UPDATE pet SET bogus = 1 WHERE id = 2'') = Inr (Some (IntV 1)) \<and>
   ''bogus'' \<notin> set (AllowedColumns (example_grammar ''pet_post'')) \<and>
   wAllowedColumns (WhereClause (example_grammar ''pet_post'')) ''bogus'' = None \<and>
   ''bogus'' \<notin> set (oAllowedColumns (OrderBy (example_grammar ''pet_post''))) \<and>
   ''bogus'' \<notin> set (AllowedColumns (example_grammar ''pet_put'')) \<and>
   wAllowedColumns (WhereClause (example_grammar ''pet_put'')) ''bogus'' = None \<and>
   ''bogus'' \<notin> set (oAllowedColumns (OrderBy (example_grammar ''pet_put'')))"
  by code_simp

text \<open>
  C2. For a statement that ParseSQL treats as a DELETE (its normalised text starts with
  DELETE in any letter case): if the text does not contain the keyword WHERE, ParseSQL
  returns an error and no query; and whenever ParseSQL returns a query, that query carries
  exactly one condition, the one parsed from the WHERE clause.
\<close>

theorem delete_requires_where:
  assumes "HasPrefix (ToUpper (normalize sql)) ''DELETE''"
  shows "(\<not> Contains (ToUpper sql) ''WHERE'' \<longrightarrow> (\<exists>e. ParseSQL pf g sql = Inl e)) \<and>
         (\<forall>q. ParseSQL pf g sql = Inr q \<longrightarrow> (\<exists>c. Conditions q = [c]))"
proof (intro conjI impI allI)
  assume nw: "\<not> Contains (ToUpper sql) ''WHERE''"
  show "\<exists>e. ParseSQL pf g sql = Inl e"
  proof (cases "FindStringSubmatch delete_re (normalize sql)")
    case None
    then show ?thesis by (simp add: ParseSQL_delete[OF assms] parseDeleteQuery_def)
  next
    case (Some m)
    with nw have "m 2 = []" using delete_group2_needs_where by blast
    with Some show ?thesis
      by (simp add: ParseSQL_delete[OF assms] parseDeleteQuery_def Let_def)
  qed
next
  fix q assume "ParseSQL pf g sql = Inr q"
  then have "parseDeleteQuery pf g (normalize sql) (new_query\<lparr>QueryType := ''DELETE''\<rparr>) = Inr q"
    by (simp add: ParseSQL_delete[OF assms])
  from parseDeleteQuery_summary[OF this] show "\<exists>c. Conditions q = [c]"
    by (auto simp: new_query_def)
qed

theorem delete_requires_where_witness:
  "HasPrefix (ToUpper (normalize ''DELETE FROM findByStatus'')) ''DELETE'' \<and>
   \<not> Contains (ToUpper ''DELETE FROM findByStatus'') ''WHERE'' \<and>
   (\<exists>e. ParseSQL no_float (example_grammar ''findByStatus'') ''DELETE FROM findByStatus'' = Inl e) \<and>
   HasPrefix (ToUpper (normalize ''DELETE FROM pet WHERE id = 123'')) ''DELETE'' \<and>
   (\<exists>q. ParseSQL no_float (example_grammar ''pet_delete'') ''DELETE FROM pet WHERE id = 123'' = Inr q \<and>
        query_view q = (''DELETE'', ''pet'', [], [], [(''id'', ''='', IntV 123)], [], 0, 0) \<and>
        (\<exists>c. Conditions q = [c]))"
proof -
  have d1: "HasPrefix (ToUpper (normalize ''DELETE FROM findByStatus'')) ''DELETE''" by code_simp
  have nw: "\<not> Contains (ToUpper ''DELETE FROM findByStatus'') ''WHERE''" by code_simp
  have d2: "HasPrefix (ToUpper (normalize ''DELETE FROM pet WHERE id = 123'')) ''DELETE''" by code_simp
  have e: "\<exists>e. ParseSQL no_float (example_grammar ''findByStatus'') ''DELETE FROM findByStatus'' = Inl e"
    using delete_requires_where[OF d1, of no_float "example_grammar ''findByStatus''"] nw by blast
  have "map_sum id query_view (ParseSQL no_float (example_grammar ''pet_delete'')
          ''DELETE FROM pet WHERE id = 123'')
      = Inr (''DELETE'', ''pet'', [], [], [(''id'', ''='', IntV 123)], [], 0, 0)"
    by code_simp
  then obtain q where q: "ParseSQL no_float (example_grammar ''pet_delete'')
          ''DELETE FROM pet WHERE id = 123'' = Inr q"
    "query_view q = (''DELETE'', ''pet'', [], [], [(''id'', ''='', IntV 123)], [], 0, 0)"
    by (blast dest: map_sum_InrD)
  have "\<exists>c. Conditions q = [c]"
    using delete_requires_where[OF d2, of no_float "example_grammar ''pet_delete''"] q(1) by blast
  with d1 nw e d2 q show ?thesis by blast
qed




text \<open>
  C4. The claim asks for the union of the operator lists of two parameters that derive the
  same column. GenerateGrammar assigns the map entry for each parameter in turn, so the
  entry holds the list of the last such parameter: with the parameters \<open>age\<close> and
  \<open>age_gt\<close>, both integers, the entry for \<open>age\<close> is the list of \<open>age_gt\<close>, and a
  condition \<open>age <= 65\<close>, which the parameter \<open>age\<close> supports, is rejected.
\<close>

theorem filter_map_keeps_last_parameter:
  "Operators (query_param ''age'' ''integer'') = [''='', ''>'', ''>='', ''<'', ''<=''] \<and>
   Operators (query_param ''age_gt'' ''integer'') = [''='', ''>''] \<and>
   extractColumnName ''age'' = ''age'' \<and> extractColumnName ''age_gt'' = ''age'' \<and>
   wAllowedColumns (WhereClause (GenerateGrammar (users_capability
       [query_param ''age'' ''integer'', query_param ''age_gt'' ''integer''] 0))) ''age''
     = Some [''='', ''>''] \<and>
   map_sum id query_view (ParseSQL no_float (GenerateGrammar (users_capability
       [query_param ''age'' ''integer'', query_param ''age_gt'' ''integer''] 0))
       ''SELECT * FROM users WHERE age <= 65'')
     = Inl (ErrOperatorNotSupported ''<='' ''age'' [''='', ''>''])"
  by code_simp




text \<open>
  C6 (amended). For every grammar whose table name is a non-empty word of letters, digits
  and underscores, ParseSQL applied to SELECT * FROM followed by the table name returns a
  SELECT query on that table whose Columns are the grammar's AllowedColumns, element for
  element and in the same order, with no condition, no ordering and the grammar's default
  limit. The claim as stated covers every grammar; the FROM pattern reads the table name
  as a run of word characters, so a name such as pet-store, which extractTableName derives
  from the path /pet-store, is cut at its hyphen and the statement is refused, as the
  counterexample shows.
\<close>

theorem select_star_expands:
  assumes "TableName g \<noteq> []" and "list_all is_word (TableName g)"
  shows "ParseSQL pf g (''SELECT * FROM '' @ TableName g) =
           Inr (new_query\<lparr>QueryType := ''SELECT'', qTableName := TableName g,
                  Columns := AllowedColumns g, qLimit := DefaultLimit (Limit g)\<rparr>)"
proof -
  let ?t = "TableName g"
  define s where "s = ''SELECT * FROM '' @ ?t @ '';''"
  note t = assms
  have hw: "is_word (hd ?t)" using t by (cases ?t) auto
  have lw: "is_word (last ?t)" using t by (simp add: list_all_iff)
  have n: "normalize (''SELECT * FROM '' @ ?t) = s"
    using normalize_plain[of "''SELECT * FROM '' @ ?t"] t(1) lw word_not_space[of "last ?t"]
    by (simp add: is_space_def s_def)
  have up: "HasPrefix (ToUpper s) ''SELECT''"
    by (simp add: s_def HasPrefix_def ToUpper_def to_upper_def lower_letters_def upper_letters_def)
  have ns: "\<forall>c\<in>set (?t @ '';''). \<not> is_space_re c"
    using t(2) word_not_space by (auto simp: list_all_iff is_space_re_def)
  have sel: "FindStringSubmatch select_re s = Some ((\<lambda>_. [])(1 := ''*''))"
    using select_star_match[of "'' '' @ ?t @ '';''"] by (simp add: s_def)
  have frm: "FindStringSubmatch from_re s = Some ((\<lambda>_. [])(1 := ?t))"
    using from_match[OF t, of "'';''"]
    by (simp add: s_def lit_mismatch[of "''FROM''", folded from_re_def[simplified]] from_re_def
        is_word_def lower_letters_def upper_letters_def to_upper_def)
  have wh: "FindStringSubmatch where_re s = None"
    using keyword_needs_space[OF ns, of "''WHERE''"]
    by (simp add: s_def where_re_def lit_mismatch to_upper_def lower_letters_def upper_letters_def)
  have ob: "FindStringSubmatch orderby_re s = None"
    using keyword_needs_space[OF ns, of "''ORDER''"]
    by (simp add: s_def orderby_re_def lit_mismatch to_upper_def lower_letters_def upper_letters_def)
  have lm: "FindStringSubmatch limit_re s = None"
    using keyword_needs_space[OF ns, of "''LIMIT''"]
    by (simp add: s_def limit_re_def lit_mismatch to_upper_def lower_letters_def upper_letters_def)
  have ts: "TrimSpace ''*'' = ''*''" by (simp add: TrimSpace_def is_space_def)
  have tt: "TrimSpace ?t = ?t"
    using t(1) hw lw word_not_space by (intro TrimSpace_id) auto
  have p1: "parseSelect g s (new_query\<lparr>QueryType := ''SELECT''\<rparr>)
      = Inr (new_query\<lparr>QueryType := ''SELECT'', Columns := AllowedColumns g\<rparr>)"
    unfolding parseSelect_def sel by (simp add: ts new_query_def)
  have p2: "parseFrom s (new_query\<lparr>QueryType := ''SELECT'', Columns := AllowedColumns g\<rparr>)
      = Inr (new_query\<lparr>QueryType := ''SELECT'', Columns := AllowedColumns g, qTableName := ?t\<rparr>)"
    unfolding parseFrom_def frm by (simp add: tt)
  have p3: "select_clauses pf g s (new_query\<lparr>QueryType := ''SELECT''\<rparr>)
      = Inr (new_query\<lparr>QueryType := ''SELECT'', Columns := AllowedColumns g, qTableName := ?t\<rparr>)"
    unfolding select_clauses_def p1 by (simp add: p2 parseWhere_def wh parseOrderBy_def ob)
  have p4: "parseSelectQuery pf g s (new_query\<lparr>QueryType := ''SELECT''\<rparr>)
      = Inr (new_query\<lparr>QueryType := ''SELECT'', Columns := AllowedColumns g, qTableName := ?t,
               qLimit := DefaultLimit (Limit g)\<rparr>)"
    unfolding parseSelectQuery_def p3 by (simp add: parseLimit_def lm)
  have "ParseSQL pf g (''SELECT * FROM '' @ ?t) = parseSelectQuery pf g s (new_query\<lparr>QueryType := ''SELECT''\<rparr>)"
    unfolding ParseSQL_def Let_def n using up by simp
  with p4 show ?thesis by (simp add: new_query_def)
qed

theorem select_star_expands_witness:
  "TableName (example_grammar ''findByStatus'') \<noteq> [] \<and>
   list_all is_word (TableName (example_grammar ''findByStatus'')) \<and>
   map_sum id query_view
     (ParseSQL no_float (example_grammar ''findByStatus'') ''SELECT * FROM findByStatus'')
     = Inr (''SELECT'', ''findByStatus'', [''id'', ''name'', ''status'', ''age''], [], [], [], 100, 0)"
proof -
  let ?g = "example_grammar ''findByStatus''"
  have t: "TableName ?g = ''findByStatus''" by (simp add: example_grammar_def)
  have h1: "TableName ?g \<noteq> []" by (simp add: example_grammar_def)
  have h2: "list_all is_word (TableName ?g)" unfolding t by code_simp
  have "map_sum id query_view (ParseSQL no_float ?g ''SELECT * FROM findByStatus'')
      = Inr (''SELECT'', ''findByStatus'', [''id'', ''name'', ''status'', ''age''], [], [], [], 100, 0)"
    using select_star_expands[OF h1 h2, of no_float]
    by (simp add: t query_view_def new_query_def example_grammar_def)
  with h1 h2 show ?thesis by blast
qed

theorem select_star_cut_table_name_counterexample:
  "extractTableName ''/pet-store'' = ''pet-store'' \<and>
   map_sum id query_view
     (ParseSQL no_float (example_grammar ''pet-store'')
        (''SELECT * FROM '' @ TableName (example_grammar ''pet-store'')))
     = Inl (ErrTableNotFound ''pet'' ''pet-store'')"
  by code_simp

text \<open>
  C7 (amended). The WHERE clause of an UPDATE is not split on AND: the whole text that the
  UPDATE pattern captures after WHERE is handed to parseCondition once. A parsed UPDATE
  carries no condition when no WHERE clause was captured and exactly one otherwise, the
  result of parseCondition on the whole captured text.
\<close>

theorem update_where_is_one_condition:
  assumes "ParseSQL pf g sql = Inr q" and "QueryType q = ''UPDATE''"
  shows "length (Conditions q) \<le> 1 \<and>
         (\<exists>m. FindStringSubmatch update_re (normalize sql) = Some m \<and>
            (m 3 = [] \<and> Conditions q = [] \<or>
             (\<exists>c. parseCondition pf g (m 3) = Inr c \<and> Conditions q = [c])))"
proof -
  from ParseSQL_cases[OF assms(1)] assms(2)
  have "parseUpdateQuery pf g (normalize sql) (new_query\<lparr>QueryType := ''UPDATE''\<rparr>) = Inr q"
    by auto
  from parseUpdateQuery_conditions[OF this] obtain m where
    m: "FindStringSubmatch update_re (normalize sql) = Some m"
      "m 3 = [] \<and> Conditions q = [] \<or> (\<exists>c. parseCondition pf g (m 3) = Inr c \<and> Conditions q = [c])"
    by (auto simp: new_query_def)
  from m(2) have "length (Conditions q) \<le> 1" by auto
  with m show ?thesis by blast
qed

theorem update_where_is_one_condition_witness:
  "\<exists>q. ParseSQL no_float (example_grammar ''pet_put'')
          ''UPDATE pet SET name = 1 WHERE id = 1 AND status = 2'' = Inr q \<and>
        query_view q = (''UPDATE'', ''pet'', [], [], [(''id'', ''='', StrV ''1 AND status = 2'')], [], 0, 0) \<and>
        length (Conditions q) \<le> 1"
proof -
  have "map_sum id query_view (ParseSQL no_float (example_grammar ''pet_put'')
          ''UPDATE pet SET name = 1 WHERE id = 1 AND status = 2'')
      = Inr (''UPDATE'', ''pet'', [], [], [(''id'', ''='', StrV ''1 AND status = 2'')], [], 0, 0)"
    by code_simp
  then obtain q where q: "ParseSQL no_float (example_grammar ''pet_put'')
          ''UPDATE pet SET name = 1 WHERE id = 1 AND status = 2'' = Inr q"
    "query_view q = (''UPDATE'', ''pet'', [], [], [(''id'', ''='', StrV ''1 AND status = 2'')], [], 0, 0)"
    by (blast dest: map_sum_InrD)
  have k: "QueryType q = ''UPDATE''" using q(2) by (simp add: query_view_def)
  from update_where_is_one_condition[OF q(1) k] have "length (Conditions q) \<le> 1" by blast
  with q show ?thesis by blast
qed

theorem update_where_not_split_counterexample:
  "map_sum id query_view (ParseSQL no_float (example_grammar ''pet_put'')
      ''UPDATE pet SET name = 1 WHERE id = 1 AND status = 2'')
     = Inr (''UPDATE'', ''pet'', [], [], [(''id'', ''='', StrV ''1 AND status = 2'')], [], 0, 0) \<and>
   map_sum id query_view (ParseSQL no_float (example_grammar ''pet'')
      ''SELECT * FROM pet WHERE id = 1 AND status = 2'')
     = Inr (''SELECT'', ''pet'', [''id'', ''name'', ''status'', ''age''], [],
            [(''id'', ''='', IntV 1), (''status'', ''='', IntV 2)], [], 100, 0)"
  by code_simp

text \<open>
  C8. For an UPDATE or DELETE query the executor takes the first condition with column
  \<open>id\<close> and operator \<open>=\<close>. If there is none, buildMutationURL fails and ExecuteQuery returns
  the failure without handing any request to the transport. Otherwise exactly one request
  is issued; its URL is address plus path with the first \<^verbatim>\<open>{id}\<close> replaced by the value
  when the path contains \<^verbatim>\<open>{id}\<close> (the replacement falls in the path when the address
  has no brace), and address plus path plus \<^verbatim>\<open>/\<close> plus the value otherwise.
\<close>

theorem mutation_url_from_id_condition:
  assumes "QueryType query = ''UPDATE'' \<or> QueryType query = ''DELETE''"
  shows "(find (\<lambda>c. Column c = ''id'' \<and> Operator c = ''='') (Conditions query) = None \<longrightarrow>
            buildMutationURL ff capability query = Inl ErrMutationNeedsId \<and>
            ExecuteQuery ff send decode capability query = (Failed (ErrBuildURL ErrMutationNeedsId), [])) \<and>
         (\<forall>c. find (\<lambda>c. Column c = ''id'' \<and> Operator c = ''='') (Conditions query) = Some c \<longrightarrow>
            buildMutationURL ff capability query =
              Inr (if Contains (Path capability) ''{id}''
                   then Replace1 (BaseURL capability @ Path capability) ''{id}'' (fmt_value ff (Value c))
                   else BaseURL capability @ Path capability @ ''/'' @ fmt_value ff (Value c)) \<and>
            snd (ExecuteQuery ff send decode capability query) =
              [\<lparr>rMethod = (if QueryType query = ''UPDATE'' then Method capability else ''DELETE''),
                rURL = (if Contains (Path capability) ''{id}''
                        then Replace1 (BaseURL capability @ Path capability) ''{id}''
                               (fmt_value ff (Value c))
                        else BaseURL capability @ Path capability @ ''/'' @ fmt_value ff (Value c)),
                rBody = (if QueryType query = ''UPDATE'' then MapBody (Updates query) else NoBody)\<rparr>]) \<and>
         (CHR ''{'' \<notin> set (BaseURL capability) \<longrightarrow>
            Replace1 (BaseURL capability @ Path capability) ''{id}'' v =
              BaseURL capability @ Replace1 (Path capability) ''{id}'' v)"
proof (intro conjI impI allI)
  assume n: "find (\<lambda>c. Column c = ''id'' \<and> Operator c = ''='') (Conditions query) = None"
  then show b: "buildMutationURL ff capability query = Inl ErrMutationNeedsId"
    by (simp add: buildMutationURL_def mutation_scan_find)
  from assms show "ExecuteQuery ff send decode capability query = (Failed (ErrBuildURL ErrMutationNeedsId), [])"
    by (auto simp: ExecuteQuery_def b)
next
  fix c
  assume s: "find (\<lambda>c. Column c = ''id'' \<and> Operator c = ''='') (Conditions query) = Some c"
  let ?url = "if Contains (Path capability) ''{id}''
       then Replace1 (BaseURL capability @ Path capability) ''{id}'' (fmt_value ff (Value c))
       else BaseURL capability @ Path capability @ ''/'' @ fmt_value ff (Value c)"
  from s show b: "buildMutationURL ff capability query = Inr ?url"
    by (simp add: buildMutationURL_def mutation_scan_find)
  from assms show "snd (ExecuteQuery ff send decode capability query) =
      [\<lparr>rMethod = (if QueryType query = ''UPDATE'' then Method capability else ''DELETE''),
        rURL = ?url,
        rBody = (if QueryType query = ''UPDATE'' then MapBody (Updates query) else NoBody)\<rparr>]"
    by (auto simp: ExecuteQuery_def b simp del: Contains.simps)
next
  assume "CHR ''{'' \<notin> set (BaseURL capability)"
  then show "Replace1 (BaseURL capability @ Path capability) ''{id}'' v =
      BaseURL capability @ Replace1 (Path capability) ''{id}'' v"
    by (intro Replace1_after_prefix) simp_all
qed

theorem mutation_url_from_id_condition_witness:
  "QueryType (new_query\<lparr>QueryType := ''UPDATE'',
      Conditions := [\<lparr>Column = ''id'', Operator = ''='', Value = IntV 123\<rparr>]\<rparr> :: unit ParsedQuery) = ''UPDATE'' \<and>
   buildMutationURL no_float_text (pet_capability ''PUT'' ''/pets/{id}'')
     (new_query\<lparr>QueryType := ''UPDATE'',
        Conditions := [\<lparr>Column = ''id'', Operator = ''='', Value = IntV 123\<rparr>]\<rparr>)
     = Inr ''https://api.example.com/pets/123'' \<and>
   map rURL (snd (ExecuteQuery no_float_text refuse no_rows (pet_capability ''PUT'' ''/pets/{id}'')
     (new_query\<lparr>QueryType := ''UPDATE'',
        Conditions := [\<lparr>Column = ''id'', Operator = ''='', Value = IntV 123\<rparr>]\<rparr>)))
     = [''https://api.example.com/pets/123''] \<and>
   buildMutationURL no_float_text (pet_capability ''DELETE'' ''/pets'')
     (new_query\<lparr>QueryType := ''DELETE'',
        Conditions := [\<lparr>Column = ''id'', Operator = ''='', Value = IntV 123\<rparr>]\<rparr>)
     = Inr ''https://api.example.com/pets/123'' \<and>
   ExecuteQuery no_float_text refuse no_rows (pet_capability ''DELETE'' ''/pets/{id}'')
     (new_query\<lparr>QueryType := ''DELETE'',
        Conditions := [\<lparr>Column = ''name'', Operator = ''='', Value = IntV 123\<rparr>]\<rparr>)
     = (Failed (ErrBuildURL ErrMutationNeedsId), [])"
proof -
  let ?c = "\<lparr>Column = ''id'', Operator = ''='', Value = IntV 123 :: unit val\<rparr>"
  let ?u = "new_query\<lparr>QueryType := ''UPDATE'', Conditions := [?c]\<rparr> :: unit ParsedQuery"
  let ?d = "new_query\<lparr>QueryType := ''DELETE'', Conditions := [?c]\<rparr> :: unit ParsedQuery"
  let ?n = "new_query\<lparr>QueryType := ''DELETE'',
      Conditions := [\<lparr>Column = ''name'', Operator = ''='', Value = IntV 123\<rparr>]\<rparr> :: unit ParsedQuery"
  let ?P = "\<lambda>c :: unit Condition. Column c = ''id'' \<and> Operator c = ''=''"
  have ku: "QueryType ?u = ''UPDATE'' \<or> QueryType ?u = ''DELETE''" by simp
  have kd: "QueryType ?d = ''UPDATE'' \<or> QueryType ?d = ''DELETE''" by simp
  have kn: "QueryType ?n = ''UPDATE'' \<or> QueryType ?n = ''DELETE''" by simp
  have fu: "find ?P (Conditions ?u) = Some ?c" by simp
  have fd: "find ?P (Conditions ?d) = Some ?c" by simp
  have fn: "find ?P (Conditions ?n) = None" by simp
  have v: "fmt_value no_float_text (Value ?c) = ''123''"
    by (simp add: Itoa_def)
  have p1: "Contains (Path (pet_capability ''PUT'' ''/pets/{id}'')) ''{id}''"
    by (simp add: pet_capability_def HasPrefix_def)
  have p2: "\<not> Contains (Path (pet_capability ''DELETE'' ''/pets'')) ''{id}''"
    by (simp add: pet_capability_def HasPrefix_def)
  have r: "Replace1 (BaseURL (pet_capability ''PUT'' ''/pets/{id}'') @ Path (pet_capability ''PUT'' ''/pets/{id}''))
      ''{id}'' ''123'' = ''https://api.example.com/pets/123''"
    by (simp add: pet_capability_def HasPrefix_def)
  have a: "BaseURL (pet_capability ''DELETE'' ''/pets'') @ Path (pet_capability ''DELETE'' ''/pets'') @ ''/'' @ ''123''
      = ''https://api.example.com/pets/123''"
    by (simp add: pet_capability_def)
  note tu = mutation_url_from_id_condition[OF ku, of no_float_text "pet_capability ''PUT'' ''/pets/{id}''" refuse no_rows]
  note td = mutation_url_from_id_condition[OF kd, of no_float_text "pet_capability ''DELETE'' ''/pets''" refuse no_rows]
  note tn = mutation_url_from_id_condition[OF kn, of no_float_text "pet_capability ''DELETE'' ''/pets/{id}''" refuse no_rows]
  have 1: "buildMutationURL no_float_text (pet_capability ''PUT'' ''/pets/{id}'') ?u
      = Inr ''https://api.example.com/pets/123''"
    using tu fu v p1 r by (simp del: Contains.simps Replace1.simps)
  have 2: "map rURL (snd (ExecuteQuery no_float_text refuse no_rows (pet_capability ''PUT'' ''/pets/{id}'') ?u))
      = [''https://api.example.com/pets/123'']"
    using tu fu v p1 r by (simp del: Contains.simps Replace1.simps)
  have 3: "buildMutationURL no_float_text (pet_capability ''DELETE'' ''/pets'') ?d
      = Inr ''https://api.example.com/pets/123''"
    using td fd v p2 a by (simp del: Contains.simps Replace1.simps)
  have 4: "ExecuteQuery no_float_text refuse no_rows (pet_capability ''DELETE'' ''/pets/{id}'') ?n
      = (Failed (ErrBuildURL ErrMutationNeedsId), [])"
    using tn fn by (simp del: Contains.simps Replace1.simps)
  from 1 2 3 4 show ?thesis by simp
qed




text \<open>
  C10. Every value text of a condition, an INSERT value list or an UPDATE assignment goes
  through parseValue, which strips the surrounding single and double quotes before it tries
  the numeric parsers. Let \<open>q1\<close> and \<open>q2\<close> be runs of quote characters. parseValue gives the
  quoted text \<open>q1 s q2\<close> what it gives \<open>s\<close>: the integer when \<open>s\<close> is an integer literal, the
  float when ParseFloat accepts \<open>s\<close>. Each place that reads a value does the same: a
  condition whose value text (group 2 of the operator pattern or of the BETWEEN pattern,
  white space trimmed) is \<open>q1 s q2\<close> gets the value of \<open>s\<close>; the INSERT loop appends the
  value of \<open>s\<close> for a list element \<open>q1 s q2\<close>; the UPDATE loop stores the value of \<open>s\<close> under
  the key for an assignment whose right side is \<open>q1 s q2\<close>. And no query that ParseSQL
  returns holds, in a condition, in its value list or in its assignments, a string that
  Atoi or ParseFloat accepts or that still has a quote at either end: quoting cannot force
  a string.
\<close>

theorem quoting_cannot_force_string:
  assumes "set q1 \<subseteq> {SQ, DQ}" and "set q2 \<subseteq> {SQ, DQ}"
  shows "parseValue pf (q1 @ s @ q2) = parseValue pf s \<and>
         (Atoi s = Some i \<longrightarrow> parseValue pf (q1 @ s @ q2) = Inr (IntV i)) \<and>
         (Trim s [SQ, DQ] = s \<and> Atoi s = None \<and> pf s = Some x \<longrightarrow>
            parseValue pf (q1 @ s @ q2) = Inr (FloatV x)) \<and>
         (TrimSpace (m 2) = q1 @ s @ q2 \<and> operator_condition pf g op m = Inr c \<longrightarrow>
            parseValue pf s = Inr (Value c)) \<and>
         (FindStringSubmatch between_re condStr = Some m \<and> TrimSpace (m 2) = q1 @ s @ q2 \<and>
          between_condition pf g condStr = Inr c \<longrightarrow> parseValue pf s = Inr (Value c)) \<and>
         (TrimSpace v = q1 @ s @ q2 \<and> parseValue pf s = Inr y \<longrightarrow>
            insert_values pf (v # vs) q = insert_values pf vs (q\<lparr>Values := Values q @ [y]\<rparr>)) \<and>
         (Split a ''='' = [lhs, rhs] \<and> TrimSpace rhs = q1 @ s @ q2 \<and> parseValue pf s = Inr y \<longrightarrow>
            update_assignments pf (a # as) q =
              update_assignments pf as (q\<lparr>Updates := (Updates q)(TrimSpace lhs \<mapsto> y)\<rparr>)) \<and>
         (ParseSQL pf g sql = Inr q' \<longrightarrow>
            (\<forall>t. StrV t \<in> Value ` set (Conditions q') \<union> set (Values q') \<union> ran (Updates q') \<longrightarrow>
                 Atoi t = None \<and> pf t = None \<and> Trim t [SQ, DQ] = t))"
proof -
  have w: "parseValue pf (q1 @ s @ q2) = parseValue pf s"
    by (rule parseValue_wrapped[OF assms])
  have n: "Atoi s = Some i \<longrightarrow> parseValue pf (q1 @ s @ q2) = Inr (IntV i)"
    using parseValue_int[of s i pf] w by simp
  have f: "Trim s [SQ, DQ] = s \<and> Atoi s = None \<and> pf s = Some x \<longrightarrow>
      parseValue pf (q1 @ s @ q2) = Inr (FloatV x)"
    using parseValue_float[of s pf x] w by simp
  have oc: "TrimSpace (m 2) = q1 @ s @ q2 \<and> operator_condition pf g op m = Inr c \<longrightarrow>
      parseValue pf s = Inr (Value c)"
    using operator_condition_value[of pf g op m c] w by auto
  have bc: "FindStringSubmatch between_re condStr = Some m \<and> TrimSpace (m 2) = q1 @ s @ q2 \<and>
      between_condition pf g condStr = Inr c \<longrightarrow> parseValue pf s = Inr (Value c)"
    using between_condition_value[of condStr m pf g c] w by auto
  have iv: "TrimSpace v = q1 @ s @ q2 \<and> parseValue pf s = Inr y \<longrightarrow>
      insert_values pf (v # vs) q = insert_values pf vs (q\<lparr>Values := Values q @ [y]\<rparr>)"
    using w by auto
  have ua: "Split a ''='' = [lhs, rhs] \<and> TrimSpace rhs = q1 @ s @ q2 \<and> parseValue pf s = Inr y \<longrightarrow>
      update_assignments pf (a # as) q =
        update_assignments pf as (q\<lparr>Updates := (Updates q)(TrimSpace lhs \<mapsto> y)\<rparr>)"
    using w by auto
  have al: "ParseSQL pf g sql = Inr q' \<longrightarrow>
      (\<forall>t. StrV t \<in> Value ` set (Conditions q') \<union> set (Values q') \<union> ran (Updates q') \<longrightarrow>
           Atoi t = None \<and> pf t = None \<and> Trim t [SQ, DQ] = t)"
  proof (intro impI allI)
    fix t
    assume p: "ParseSQL pf g sql = Inr q'"
      and "StrV t \<in> Value ` set (Conditions q') \<union> set (Values q') \<union> ran (Updates q')"
    with ParseSQL_values[OF p] obtain u where "parseValue pf u = Inr (StrV t)"
      by (metis (no_types, lifting) Un_iff imageE)
    then show "Atoi t = None \<and> pf t = None \<and> Trim t [SQ, DQ] = t" by (rule parseValue_StrV)
  qed
  from w n f oc bc iv ua al show ?thesis by (intro conjI)
qed

theorem quoting_cannot_force_string_witness:
  "set [SQ] \<subseteq> {SQ, DQ} \<and> Atoi ''123'' = Some 123 \<and>
   parseValue (\<lambda>t. if t = ''1.5'' then Some (15 :: int, - 1 :: int) else None)
     ([SQ] @ ''123'' @ [SQ]) = Inr (IntV 123) \<and>
   Trim ''1.5'' [SQ, DQ] = ''1.5'' \<and> Atoi ''1.5'' = None \<and>
   parseValue (\<lambda>t. if t = ''1.5'' then Some (15 :: int, - 1 :: int) else None)
     ([SQ] @ ''1.5'' @ [SQ]) = Inr (FloatV (15, - 1)) \<and>
   (\<exists>c. operator_condition (\<lambda>t. if t = ''1.5'' then Some (15 :: int, - 1 :: int) else None)
          (example_grammar ''users'') ''=''
          ((\<lambda>_. [])(1 := ''id'', 2 := [SQ] @ ''123'' @ [SQ])) = Inr c \<and>
        Column c = ''id'' \<and> Value c = IntV 123) \<and>
   insert_values (\<lambda>t. if t = ''1.5'' then Some (15 :: int, - 1 :: int) else None)
     [[SQ] @ ''1.5'' @ [SQ]] new_query = Inr (new_query\<lparr>Values := [FloatV (15, - 1)]\<rparr>) \<and>
   update_assignments (\<lambda>t. if t = ''1.5'' then Some (15 :: int, - 1 :: int) else None)
     [''age = '' @ [SQ] @ ''123'' @ [SQ]] new_query
     = Inr (new_query\<lparr>Updates := [''age'' \<mapsto> IntV 123]\<rparr>) \<and>
   map_sum id query_view
     (ParseSQL (\<lambda>t. if t = ''1.5'' then Some (15 :: int, - 1 :: int) else None)
        (example_grammar ''users'')
        (''SELECT * FROM users WHERE id = '' @ [SQ] @ ''123'' @ [SQ]))
     = Inr (''SELECT'', ''users'', [''id'', ''name'', ''status'', ''age''], [],
            [(''id'', ''='', IntV 123)], [], 100, 0) \<and>
   map_sum id query_view
     (ParseSQL (\<lambda>t. if t = ''1.5'' then Some (15 :: int, - 1 :: int) else None)
        (example_grammar ''pet_post'')
        (''INSERT INTO pet (id, age) VALUES ('' @ [SQ] @ ''123'' @ [SQ] @ '', '' @ [DQ] @ ''1.5'' @ [DQ] @ '')''))
     = Inr (''INSERT'', ''pet'', [''id'', ''age''], [IntV 123, FloatV (15, - 1)], [], [], 0, 0) \<and>
   map_sum id (assigned ''age'')
     (ParseSQL (\<lambda>t. if t = ''1.5'' then Some (15 :: int, - 1 :: int) else None)
        (example_grammar ''pet_put'')
        (''UPDATE pet SET age = '' @ [SQ] @ ''123'' @ [SQ] @ '' WHERE id = '' @ [DQ] @ ''7'' @ [DQ]))
     = Inr (Some (IntV 123))"
proof -
  let ?pf = "\<lambda>t. if t = ''1.5'' then Some (15 :: int, - 1 :: int) else None"
  let ?m = "(\<lambda>_ :: nat. [])(1 := ''id'', 2 := [SQ] @ ''123'' @ [SQ])"
  let ?a = "''age = '' @ [SQ] @ ''123'' @ [SQ]"
  have q: "set [SQ] \<subseteq> {SQ, DQ}" by simp
  have a: "Atoi ''123'' = Some 123"
    by (simp add: Atoi_def is_digit_def dec_val_def digit_val_def)
  have b: "Atoi ''1.5'' = None"
    by (simp add: Atoi_def is_digit_def)
  have t: "Trim ''1.5'' [SQ, DQ] = ''1.5''"
    by (simp add: Trim_def)
  have p: "?pf ''1.5'' = Some (15, - 1)" by simp
  note int_case = quoting_cannot_force_string[OF q q, where pf = ?pf and s = "''123''" and i = 123
      and m = ?m and g = "example_grammar ''users''" and op = "''=''"
      and a = ?a and lhs = "''age ''" and rhs = "'' '' @ [SQ] @ ''123'' @ [SQ]"
      and as = "[]" and q = new_query and y = "IntV 123"]
  note float_case = quoting_cannot_force_string[OF q q, where pf = ?pf and s = "''1.5''"
      and x = "(15, - 1)" and v = "[SQ] @ ''1.5'' @ [SQ]" and vs = "[]" and q = new_query
      and y = "FloatV (15, - 1)"]
  note int_quoted = int_case[THEN conjunct1]
  note int_number = int_case[THEN conjunct2, THEN conjunct1]
  note int_condition = int_case[THEN conjunct2, THEN conjunct2, THEN conjunct2, THEN conjunct1]
  note int_update = int_case[THEN conjunct2, THEN conjunct2, THEN conjunct2, THEN conjunct2,
      THEN conjunct2, THEN conjunct2, THEN conjunct1]
  note float_quoted = float_case[THEN conjunct1]
  note float_number = float_case[THEN conjunct2, THEN conjunct2, THEN conjunct1]
  note float_insert = float_case[THEN conjunct2, THEN conjunct2, THEN conjunct2, THEN conjunct2,
      THEN conjunct2, THEN conjunct1]
  have i: "parseValue ?pf ([SQ] @ ''123'' @ [SQ]) = Inr (IntV 123)"
    using int_number a by blast
  have f: "parseValue ?pf ([SQ] @ ''1.5'' @ [SQ]) = Inr (FloatV (15, - 1))"
    using float_number b t p by blast
  have i0: "parseValue ?pf ''123'' = Inr (IntV 123)"
    by (rule trans[OF int_quoted[symmetric] i])
  have f0: "parseValue ?pf ''1.5'' = Inr (FloatV (15, - 1))"
    by (rule trans[OF float_quoted[symmetric] f])
  have "map_sum id Column (operator_condition ?pf (example_grammar ''users'') ''='' ?m) = Inr ''id''"
    by code_simp
  then obtain c where c: "operator_condition ?pf (example_grammar ''users'') ''='' ?m = Inr c"
    "Column c = ''id''" by (blast dest: map_sum_InrD)
  have tm: "TrimSpace (?m 2) = [SQ] @ ''123'' @ [SQ]" by code_simp
  from int_condition tm c(1) have "parseValue ?pf ''123'' = Inr (Value c)" by blast
  with i0 have "Value c = IntV 123" by simp
  with c have oc: "\<exists>c. operator_condition ?pf (example_grammar ''users'') ''='' ?m = Inr c \<and>
      Column c = ''id'' \<and> Value c = IntV 123" by blast
  have tv: "TrimSpace ([SQ] @ ''1.5'' @ [SQ]) = [SQ] @ ''1.5'' @ [SQ]" by code_simp
  from float_insert tv f0 have "insert_values ?pf [[SQ] @ ''1.5'' @ [SQ]] new_query
      = insert_values ?pf [] (new_query\<lparr>Values := Values new_query @ [FloatV (15, - 1)]\<rparr>)"
    by blast
  then have iv: "insert_values ?pf [[SQ] @ ''1.5'' @ [SQ]] new_query
      = Inr (new_query\<lparr>Values := [FloatV (15, - 1)]\<rparr>)"
    by (simp add: new_query_def)
  have sp: "Split ?a ''='' = [''age '', '' '' @ [SQ] @ ''123'' @ [SQ]]" by code_simp
  have t1: "TrimSpace ('' '' @ [SQ] @ ''123'' @ [SQ]) = [SQ] @ ''123'' @ [SQ]" by code_simp
  have t0: "TrimSpace ''age '' = ''age''" by code_simp
  from int_update sp t1 i0 have "update_assignments ?pf [?a] new_query
      = update_assignments ?pf [] (new_query\<lparr>Updates := (Updates new_query)(TrimSpace ''age '' \<mapsto> IntV 123)\<rparr>)"
    by blast
  then have ua: "update_assignments ?pf [?a] new_query
      = Inr (new_query\<lparr>Updates := [''age'' \<mapsto> IntV 123]\<rparr>)"
    by (simp add: t0 new_query_def)
  have s1: "map_sum id query_view
     (ParseSQL ?pf (example_grammar ''users'')
        (''SELECT * FROM users WHERE id = '' @ [SQ] @ ''123'' @ [SQ]))
     = Inr (''SELECT'', ''users'', [''id'', ''name'', ''status'', ''age''], [],
            [(''id'', ''='', IntV 123)], [], 100, 0)" by code_simp
  have s2: "map_sum id query_view
     (ParseSQL ?pf (example_grammar ''pet_post'')
        (''INSERT INTO pet (id, age) VALUES ('' @ [SQ] @ ''123'' @ [SQ] @ '', '' @ [DQ] @ ''1.5'' @ [DQ] @ '')''))
     = Inr (''INSERT'', ''pet'', [''id'', ''age''], [IntV 123, FloatV (15, - 1)], [], [], 0, 0)"
    by code_simp
  have s3: "map_sum id (assigned ''age'')
     (ParseSQL ?pf (example_grammar ''pet_put'')
        (''UPDATE pet SET age = '' @ [SQ] @ ''123'' @ [SQ] @ '' WHERE id = '' @ [DQ] @ ''7'' @ [DQ]))
     = Inr (Some (IntV 123))" by code_simp
  from q a i t b f oc iv ua s1 s2 s3 show ?thesis by (intro conjI)
qed

end
